theory Spec2Isabelle
  imports Complex_Main
begin

section \<open>PLY shape provider (mol-model-formats/shape/ply.ts)\<close>

subsection \<open>Values, columns and tables\<close>

text \<open>
  Errors are values. \<open>MissingVertexElement\<close>, \<open>MissingFaceElement\<close> and
  \<open>MissingCoordinateProperties\<close> are the three \<open>throw new Error(...)\<close> of the file;
  \<open>Cancelled\<close> is what an aborted \<open>ctx.update\<close> raises; \<open>RangeError\<close> and \<open>TypeError\<close> are
  the two JavaScript errors the file can run into (an invalid typed-array length, a method
  call on \<open>undefined\<close>).
\<close>

datatype error =
    MissingVertexElement
  | MissingFaceElement
  | MissingCoordinateProperties
  | Cancelled
  | RangeError
  | TypeError

text \<open>
  A JavaScript number that may be \<open>undefined\<close>: \<open>None\<close> is \<open>undefined\<close>. Numbers are integers
  in this development; the rounding a Float32Array applies when a value is stored is not
  represented.
\<close>

type_synonym jsnumber = "int option"

text \<open>Reading \<open>xs[i]\<close> from an array: \<open>undefined\<close> out of range, never an error.\<close>

definition arrayGet :: "'a list \<Rightarrow> nat \<Rightarrow> 'a option" where
  "arrayGet xs i = (if i < length xs then Some (xs ! i) else None)"

text \<open>
  Modelled from the spec: \<open>Column\<close> (mol-data/db) is not under src. A column is either
  backed by an array or constant-valued (\<open>Column.ofConst v rowCount\<close>); both answer
  \<open>value(row)\<close>. An array-backed column answers \<open>undefined\<close> outside its rows, a constant
  column answers its constant for any argument.
\<close>

datatype column = ArrayColumn "int list" | ConstColumn int nat

definition ofConst :: "int \<Rightarrow> nat \<Rightarrow> column" where
  "ofConst v n = ConstColumn v n"

fun columnRowCount :: "column \<Rightarrow> nat" where
  "columnRowCount (ArrayColumn xs) = length xs"
| "columnRowCount (ConstColumn v n) = n"

fun columnValue :: "column \<Rightarrow> nat \<Rightarrow> jsnumber" where
  "columnValue (ArrayColumn xs) row = arrayGet xs row"
| "columnValue (ConstColumn v n) row = Some v"

text \<open>\<open>value(idx)\<close> where \<open>idx\<close> itself may be \<open>undefined\<close>.\<close>

fun columnValueAt :: "column \<Rightarrow> nat option \<Rightarrow> jsnumber" where
  "columnValueAt c (Some row) = columnValue c row"
| "columnValueAt (ArrayColumn xs) None = None"
| "columnValueAt (ConstColumn v n) None = Some v"

text \<open>Storing a number into a Uint32Array keeps it modulo \<open>2 ^ 32\<close>.\<close>

definition toUint32 :: "int \<Rightarrow> nat" where
  "toUint32 v = nat (v mod 2 ^ 32)"

text \<open>\<open>column.toArray({ array: Uint32Array })\<close>: one entry per row of the column.\<close>

fun toArrayUint32 :: "column \<Rightarrow> nat list" where
  "toArrayUint32 (ArrayColumn xs) = map toUint32 xs"
| "toArrayUint32 (ConstColumn v n) = replicate n (toUint32 v)"

text \<open>
  Modelled from the spec: the parsed dataset (mol-io/reader/ply/schema) is not under src.
  A vertex table has a row count and named columns; \<open>getProperty\<close> answers the column or
  \<open>undefined\<close>. A face list answers, for each row, its entries and their count. A file has
  an identity (two files are the same object iff their \<open>fileId\<close> agree) and may lack either
  element.
\<close>

record plyTable =
  rowCount :: nat
  properties :: "(string \<times> column) list"

definition getProperty :: "plyTable \<Rightarrow> string \<Rightarrow> column option" where
  "getProperty vertex name = map_of (properties vertex) name"

record plyListRow =
  entries :: "int list"
  count :: nat

type_synonym plyList = "plyListRow list"

record plyFile =
  fileId :: nat
  vertexElement :: "plyTable option"
  faceElement :: "plyList option"

subsection \<open>Parameters\<close>

text \<open>
  Modelled from the spec: \<open>Color\<close> (mol-util/color) is not under src. A color is an RGB
  triple; \<open>toRgb\<close> gives its three components and \<open>fromRgb\<close> builds it, an undefined
  component counting as 0.
\<close>

datatype color = Rgb int int int

fun toRgb :: "color \<Rightarrow> int \<times> int \<times> int" where
  "toRgb (Rgb r g b) = (r, g, b)"

definition fromRgb :: "jsnumber \<Rightarrow> jsnumber \<Rightarrow> jsnumber \<Rightarrow> color" where
  "fromRgb r g b =
     Rgb (case r of None \<Rightarrow> 0 | Some v \<Rightarrow> v)
         (case g of None \<Rightarrow> 0 | Some v \<Rightarrow> v)
         (case b of None \<Rightarrow> 0 | Some v \<Rightarrow> v)"

text \<open>
  The values of \<open>PlyShapeParams\<close> this file reads: \<open>coloring\<close> is \<open>vertex\<close> with three
  property names or \<open>uniform\<close> with a color, \<open>grouping\<close> is \<open>vertex\<close> with a property name
  or \<open>none\<close>. The \<open>Mesh.Params\<close> spread into the same object are never read here.
  \<open>PD.isParamEqual\<close> on either group is structural equality, and \<open>deepClone\<close> returns an
  equal value.
\<close>

datatype coloringParams = ColoringVertex string string string | ColoringUniform color

datatype groupingParams = GroupingVertex string | GroupingNone

record props =
  coloring :: coloringParams
  grouping :: groupingParams

subsection \<open>Grouping\<close>

record Grouping =
  ids :: "nat list"
  map' :: "nat list"

text \<open>
  Modelled from the spec: \<open>fillSerial\<close> and \<open>arrayMax\<close> (mol-util/array) are not under src.
  \<open>fillSerial\<close> writes 0, 1, 2, ... into the array. \<open>arrayMax\<close> is the maximum identifier;
  an empty array has none (\<open>None\<close>), and \<open>new Uint32Array\<close> of a length that is not a
  non-negative integer raises a RangeError.
\<close>

definition newUint32Array :: "nat \<Rightarrow> nat list" where
  "newUint32Array n = replicate n 0"

definition fillSerial :: "nat list \<Rightarrow> nat list" where
  "fillSerial array = [0..<length array]"

definition arrayMax :: "nat list \<Rightarrow> nat option" where
  "arrayMax array = (if array = [] then None else Some (fold max array 0))"

text \<open>
  \<open>for (let i = 0, il = ids.length; i < il; ++i) map[ids[i]] = i\<close>, from row \<open>i\<close> on.
  A typed array has fewer than \<open>2 ^ 32\<close> entries, so the row index is stored as it is.
\<close>

function groupingLoop :: "nat list \<Rightarrow> nat \<Rightarrow> nat list \<Rightarrow> nat list" where
  "groupingLoop idArray i m =
     (if i < length idArray then groupingLoop idArray (Suc i) (m[idArray ! i := i]) else m)"
  by pat_completeness auto
termination
  by (relation "measure (\<lambda>(idArray, i, m). length idArray - i)") auto

declare groupingLoop.simps [simp del]

definition getGrouping :: "plyTable \<Rightarrow> props \<Rightarrow> error + Grouping" where
  "getGrouping vertex props =
     (let column = (case grouping props of
                      GroupingVertex groupName \<Rightarrow> getProperty vertex groupName
                    | GroupingNone \<Rightarrow> None);
          ids = (case column of
                   Some c \<Rightarrow> toArrayUint32 c
                 | None \<Rightarrow> fillSerial (newUint32Array (rowCount vertex)))
      in case arrayMax ids of
           None \<Rightarrow> Inl RangeError
         | Some maxId \<Rightarrow>
             Inr \<lparr>ids = ids,
                  map' = groupingLoop ids 0 (newUint32Array (maxId + 1))\<rparr>)"

subsection \<open>Coloring\<close>

record Coloring =
  red :: column
  green :: column
  blue :: column

text \<open>\<open>a || b\<close> on a column that may be \<open>undefined\<close>.\<close>

definition orElse :: "column option \<Rightarrow> column \<Rightarrow> column" where
  "orElse a b = (case a of Some c \<Rightarrow> c | None \<Rightarrow> b)"

definition getColoring :: "plyTable \<Rightarrow> props \<Rightarrow> Coloring" where
  "getColoring vertex props =
     (case coloring props of
        ColoringVertex r g b \<Rightarrow>
          \<lparr>red = orElse (getProperty vertex r) (ofConst 127 (rowCount vertex)),
           green = orElse (getProperty vertex g) (ofConst 127 (rowCount vertex)),
           blue = orElse (getProperty vertex b) (ofConst 127 (rowCount vertex))\<rparr>
      | ColoringUniform c \<Rightarrow>
          (case toRgb c of (r, g, b) \<Rightarrow>
             \<lparr>red = ofConst r (rowCount vertex),
              green = ofConst g (rowCount vertex),
              blue = ofConst b (rowCount vertex)\<rparr>))"

subsection \<open>Object identity\<close>

text \<open>
  The heap counts the objects created so far; a new object takes the count as its
  address. A reference is an address with the object's content (the objects here are not
  changed once shared), and two references are the same object iff their addresses agree.
\<close>

type_synonym heap = nat

type_synonym 'a ref = "nat \<times> 'a"

definition new :: "'a \<Rightarrow> heap \<Rightarrow> 'a ref \<times> heap" where
  "new v h = ((h, v), Suc h)"

subsection \<open>Mesh builder\<close>

text \<open>
  Modelled from the spec: \<open>ChunkedArray\<close> (mol-data/util), \<open>MeshBuilder\<close> and \<open>Mesh\<close>
  (mol-geo/geometry/mesh) are not under src. A growable buffer is the sequence of values
  appended to it (chunking and the typed array's coercion of a value are not represented);
  the build state aggregates four of them, created by \<open>createState\<close>, which \<open>getMesh\<close>
  takes apart at once (\<open>const { vertices, normals, indices, groups } = builderState\<close>);
  the initial count and the chunk size are capacity hints and the previous mesh is a reuse
  hint, none of which changes the output.
  \<open>MeshBuilder.getMesh\<close> freezes the state into a mesh with its counts.
  \<open>Mesh.computeNormals\<close> leaves a mesh with supplied normals as it is and otherwise
  computes them from the triangles, in floating point: the result is \<open>ComputedNormals\<close>.
  What the normal pass asks of the execution context is not represented.
\<close>

datatype normalData = AppendedNormals "jsnumber list" | ComputedNormals

record mesh =
  vertexCount :: nat
  triangleCount :: nat
  vertexBuffer :: "jsnumber list"
  normalBuffer :: normalData
  indexBuffer :: "jsnumber list"
  groupBuffer :: "jsnumber list"
  normalsComputed :: bool

record builderState =
  vertices :: "jsnumber list"
  normals :: "jsnumber list"
  indices :: "jsnumber list"
  groups :: "jsnumber list"

definition add3 :: "jsnumber list \<Rightarrow> jsnumber \<Rightarrow> jsnumber \<Rightarrow> jsnumber \<Rightarrow> jsnumber list" where
  "add3 array a b c = array @ [a, b, c]"

definition add :: "jsnumber list \<Rightarrow> jsnumber \<Rightarrow> jsnumber list" where
  "add array a = array @ [a]"

definition createState ::
  "nat \<Rightarrow> real \<Rightarrow> mesh ref option \<Rightarrow> heap \<Rightarrow> builderState \<times> heap" where
  "createState initialCount chunkSize previous h =
     (\<lparr>vertices = [], normals = [], indices = [], groups = []\<rparr>, h + 4)"

definition builderGetMesh :: "builderState \<Rightarrow> mesh" where
  "builderGetMesh st =
     \<lparr>vertexCount = length (vertices st) div 3,
      triangleCount = length (indices st) div 3,
      vertexBuffer = vertices st,
      normalBuffer = AppendedNormals (normals st),
      indexBuffer = indices st,
      groupBuffer = groups st,
      normalsComputed = False\<rparr>"

definition computeNormals :: "mesh \<Rightarrow> mesh" where
  "computeNormals m =
     (if normalsComputed m then m
      else m\<lparr>normalBuffer := ComputedNormals, normalsComputed := True\<rparr>)"

text \<open>
  Modelled from the spec: \<open>RuntimeContext\<close> (mol-task) is not under src. A context is what
  it answers at the successive checkpoints that consult it: \<open>Idle\<close> (\<open>shouldUpdate\<close> is
  false), \<open>Resumed\<close> (\<open>shouldUpdate\<close> is true and \<open>update\<close> resumes the build) or
  \<open>CancelObserved\<close> (the cancellation flag is observed and the build aborts). A context with
  no answers left is idle.
\<close>

datatype observation = Idle | Resumed | CancelObserved

type_synonym runtimeContext = "observation list"

text \<open>\<open>if (i % 100000 === 0 && ctx.shouldUpdate) await ctx.update(...)\<close>\<close>

definition checkpoint :: "nat \<Rightarrow> runtimeContext \<Rightarrow> error + runtimeContext" where
  "checkpoint i ctx =
     (if i mod 100000 = 0 then
        (case ctx of
           [] \<Rightarrow> Inr []
         | Idle # rest \<Rightarrow> Inr rest
         | Resumed # rest \<Rightarrow> Inr rest
         | CancelObserved # rest \<Rightarrow> Inl Cancelled)
      else Inr ctx)"

text \<open>The normal columns, when all three are present (\<open>hasNormals\<close>).\<close>

definition normalColumns ::
  "column option \<Rightarrow> column option \<Rightarrow> column option \<Rightarrow> (column \<times> column \<times> column) option" where
  "normalColumns nx ny nz =
     (case nx of None \<Rightarrow> None | Some a \<Rightarrow>
      (case ny of None \<Rightarrow> None | Some b \<Rightarrow>
       (case nz of None \<Rightarrow> None | Some c \<Rightarrow> Some (a, b, c))))"

text \<open>The body of the vertex loop for row \<open>i\<close>.\<close>

definition addVertex ::
  "column \<Rightarrow> column \<Rightarrow> column \<Rightarrow> (column \<times> column \<times> column) option \<Rightarrow> nat list \<Rightarrow> nat \<Rightarrow>
   builderState \<Rightarrow> builderState" where
  "addVertex x y z hasNormals groupIds i st =
     (let st1 = st\<lparr>vertices := add3 (vertices st) (columnValue x i) (columnValue y i) (columnValue z i)\<rparr>;
          st2 = (case hasNormals of
                   Some (nx, ny, nz) \<Rightarrow>
                     st1\<lparr>normals := add3 (normals st1) (columnValue nx i) (columnValue ny i) (columnValue nz i)\<rparr>
                 | None \<Rightarrow> st1)
      in st2\<lparr>groups := add (groups st2) (map_option int (arrayGet groupIds i))\<rparr>)"

function vertexLoop ::
  "column \<Rightarrow> column \<Rightarrow> column \<Rightarrow> (column \<times> column \<times> column) option \<Rightarrow> nat list \<Rightarrow> nat \<Rightarrow> nat \<Rightarrow>
   runtimeContext \<Rightarrow> builderState \<Rightarrow> error + (builderState \<times> runtimeContext)" where
  "vertexLoop x y z hasNormals groupIds il i ctx st =
     (if i < il then
        (case checkpoint i ctx of
           Inl e \<Rightarrow> Inl e
         | Inr ctx' \<Rightarrow>
             vertexLoop x y z hasNormals groupIds il (Suc i) ctx'
               (addVertex x y z hasNormals groupIds i st))
      else Inr (st, ctx))"
  by pat_completeness auto
termination
  by (relation "measure (\<lambda>(x, y, z, hasNormals, groupIds, il, i, ctx, st). il - i)") auto

declare vertexLoop.simps [simp del]

text \<open>The body of the face loop for row \<open>i\<close>.\<close>

definition addFace :: "plyListRow \<Rightarrow> builderState \<Rightarrow> builderState" where
  "addFace row st =
     (if count row = 3 then
        st\<lparr>indices := add3 (indices st) (arrayGet (entries row) 0) (arrayGet (entries row) 1)
                          (arrayGet (entries row) 2)\<rparr>
      else st)"

function faceLoop ::
  "plyList \<Rightarrow> nat \<Rightarrow> runtimeContext \<Rightarrow> builderState \<Rightarrow> error + (builderState \<times> runtimeContext)" where
  "faceLoop face i ctx st =
     (if i < length face then
        (case checkpoint i ctx of
           Inl e \<Rightarrow> Inl e
         | Inr ctx' \<Rightarrow> faceLoop face (Suc i) ctx' (addFace (face ! i) st))
      else Inr (st, ctx))"
  by pat_completeness auto
termination
  by (relation "measure (\<lambda>(face, i, ctx, st). length face - i)") auto

declare faceLoop.simps [simp del]

definition getMesh ::
  "runtimeContext \<Rightarrow> plyTable \<Rightarrow> plyList \<Rightarrow> nat list \<Rightarrow> mesh ref option \<Rightarrow> heap \<Rightarrow>
   (error + mesh ref) \<times> heap" where
  "getMesh ctx vertex face groupIds previous h =
     (case createState (rowCount vertex) (real (rowCount vertex) / 4) previous h of
        (builderState, h1) \<Rightarrow>
      (case getProperty vertex ''x'' of None \<Rightarrow> (Inl MissingCoordinateProperties, h1) | Some x \<Rightarrow>
      (case getProperty vertex ''y'' of None \<Rightarrow> (Inl MissingCoordinateProperties, h1) | Some y \<Rightarrow>
      (case getProperty vertex ''z'' of None \<Rightarrow> (Inl MissingCoordinateProperties, h1) | Some z \<Rightarrow>
        (let hasNormals = normalColumns (getProperty vertex ''nx'') (getProperty vertex ''ny'')
                            (getProperty vertex ''nz'')
         in case vertexLoop x y z hasNormals groupIds (rowCount vertex) 0 ctx builderState of
              Inl e \<Rightarrow> (Inl e, h1)
            | Inr (st1, ctx1) \<Rightarrow>
                (case faceLoop face 0 ctx1 st1 of
                   Inl e \<Rightarrow> (Inl e, h1)
                 | Inr (st2, ctx2) \<Rightarrow>
                     (case new (computeNormals
                                 ((builderGetMesh st2)\<lparr>normalsComputed := (hasNormals \<noteq> None)\<rparr>)) h1 of
                        (m, h2) \<Rightarrow> (Inr m, h2))))))))"

subsection \<open>Shape\<close>

text \<open>
  Modelled from the spec: \<open>Shape.create\<close> (mol-model/shape) is not under src. A shape
  refers to its source file and its mesh and carries three callbacks; the callbacks of
  \<open>createShape\<close> close over the coloring and the grouping, which the shape therefore keeps
  (\<open>capturedColoring\<close>, \<open>capturedGrouping\<close>). Its geometry is whatever \<open>createShape\<close> was
  given, \<open>undefined\<close> included.
\<close>

record shape =
  shapeName :: string
  sourceData :: plyFile
  geometry :: "mesh ref option"
  capturedColoring :: "Coloring ref"
  capturedGrouping :: "Grouping ref"

definition createShape ::
  "plyFile \<Rightarrow> mesh ref option \<Rightarrow> Coloring ref \<Rightarrow> Grouping ref \<Rightarrow> shape" where
  "createShape plyFile m c g =
     \<lparr>shapeName = ''ply-mesh'', sourceData = plyFile, geometry = m,
      capturedColoring = c, capturedGrouping = g\<rparr>"

text \<open>The decimal digits of an unsigned integer (\<open>toString\<close> on an entry of a Uint32Array).\<close>

function toString :: "nat \<Rightarrow> string" where
  "toString n =
     (if n < 10 then [''0123456789'' ! n]
      else toString (n div 10) @ [''0123456789'' ! (n mod 10)])"
  by pat_completeness auto
termination
  by (relation "measure id") auto

declare toString.simps [simp del]

definition getColor :: "shape \<Rightarrow> nat \<Rightarrow> color" where
  "getColor s groupId =
     (let c = snd (capturedColoring s);
          idx = arrayGet (map' (snd (capturedGrouping s))) groupId
      in fromRgb (columnValueAt (red c) idx) (columnValueAt (green c) idx)
           (columnValueAt (blue c) idx))"

definition getSize :: "shape \<Rightarrow> nat \<Rightarrow> nat" where
  "getSize s groupId = 1"

definition getLabel :: "shape \<Rightarrow> nat \<Rightarrow> error + string" where
  "getLabel s groupId =
     (case arrayGet (ids (snd (capturedGrouping s))) groupId of
        None \<Rightarrow> Inl TypeError
      | Some v \<Rightarrow> Inr (toString v))"

subsection \<open>The shape getter and its cache\<close>

text \<open>
  The variables \<open>makeShapeGetter\<close> closes over (\<open>c_plyFile\<close> is \<open>_plyFile\<close>, and so on);
  \<open>None\<close> is \<open>undefined\<close>. \<open>getShape\<close> takes them and the heap and returns them updated,
  also when it fails. Its result is the \<open>_shape\<close> variable, which is \<open>undefined\<close> until a
  shape was built. In the color-only branch \<open>createShape\<close> takes \<open>_grouping\<close> apart
  (\<open>const { ids, map } = grouping\<close>), a TypeError when it is \<open>undefined\<close>.
\<close>

record shapeGetter =
  c_plyFile :: "plyFile option"
  c_props :: "props option"
  c_shape :: "shape ref option"
  c_mesh :: "mesh ref option"
  c_coloring :: "Coloring ref option"
  c_grouping :: "Grouping ref option"

definition makeShapeGetter :: shapeGetter where
  "makeShapeGetter =
     \<lparr>c_plyFile = None, c_props = None, c_shape = None, c_mesh = None,
      c_coloring = None, c_grouping = None\<rparr>"

definition newMesh :: "shapeGetter \<Rightarrow> plyFile \<Rightarrow> props \<Rightarrow> bool" where
  "newMesh st plyFile props =
     ((case c_plyFile st of None \<Rightarrow> True | Some f \<Rightarrow> fileId f \<noteq> fileId plyFile) \<or>
      (case c_props st of None \<Rightarrow> True | Some p \<Rightarrow> grouping p \<noteq> grouping props))"

definition newColor :: "shapeGetter \<Rightarrow> props \<Rightarrow> bool" where
  "newColor st props =
     (case c_props st of None \<Rightarrow> True | Some p \<Rightarrow> coloring p \<noteq> coloring props)"

definition shapeGeometry :: "shape ref option \<Rightarrow> mesh ref option" where
  "shapeGeometry s = (case s of None \<Rightarrow> None | Some r \<Rightarrow> geometry (snd r))"

definition getShape ::
  "runtimeContext \<Rightarrow> plyFile \<Rightarrow> props \<Rightarrow> shape ref option \<Rightarrow> shapeGetter \<times> heap \<Rightarrow>
   (error + shape ref option) \<times> shapeGetter \<times> heap" where
  "getShape ctx plyFile props previous sh =
     (case sh of (st, h) \<Rightarrow>
      (case vertexElement plyFile of None \<Rightarrow> (Inl MissingVertexElement, st, h) | Some vertex \<Rightarrow>
      (case faceElement plyFile of None \<Rightarrow> (Inl MissingFaceElement, st, h) | Some face \<Rightarrow>
        (if newMesh st plyFile props then
           (case new (getColoring vertex props) h of (c, h1) \<Rightarrow>
            (case getGrouping vertex props of
               Inl e \<Rightarrow> (Inl e, st\<lparr>c_coloring := Some c\<rparr>, h1)
             | Inr g0 \<Rightarrow>
                 (case new g0 h1 of (g, h2) \<Rightarrow>
                  (case getMesh ctx vertex face (ids g0) (shapeGeometry previous) h2 of
                     (Inl e, h3) \<Rightarrow>
                       (Inl e, st\<lparr>c_coloring := Some c, c_grouping := Some g\<rparr>, h3)
                   | (Inr m, h3) \<Rightarrow>
                       (case new (createShape plyFile (Some m) c g) h3 of (s, h4) \<Rightarrow>
                          (Inr (Some s),
                           \<lparr>c_plyFile = Some plyFile, c_props = Some props, c_shape = Some s,
                            c_mesh = Some m, c_coloring = Some c, c_grouping = Some g\<rparr>,
                           h4))))))
         else if newColor st props then
           (case new (getColoring vertex props) h of (c, h1) \<Rightarrow>
            (case c_grouping st of
               None \<Rightarrow> (Inl TypeError, st\<lparr>c_coloring := Some c\<rparr>, h1)
             | Some g \<Rightarrow>
                 (case new (createShape plyFile (c_mesh st) c g) h1 of (s, h2) \<Rightarrow>
                    (Inr (Some s),
                     st\<lparr>c_plyFile := Some plyFile, c_props := Some props, c_shape := Some s,
                        c_coloring := Some c\<rparr>,
                     h2))))
         else
           (Inr (c_shape st), st\<lparr>c_plyFile := Some plyFile, c_props := Some props\<rparr>, h)))))"

text \<open>
  The cache agrees with the shape it holds: the cached mesh and grouping are the ones the
  cached shape was built from. It holds for a new getter and after every call that
  returns a shape to a getter for which it held.
\<close>

definition cacheConsistent :: "shapeGetter \<Rightarrow> bool" where
  "cacheConsistent st =
     (case c_shape st of
        None \<Rightarrow> True
      | Some s \<Rightarrow>
          c_mesh st = geometry (snd s) \<and> c_grouping st = Some (capturedGrouping (snd s)))"

section \<open>Cooperative yielding (perf-tests/tasks.ts)\<close>

subsection \<open>Numbers\<close>

text \<open>
  The clock readings and \<open>lastUpdated\<close> are JavaScript numbers, that is IEEE 754 doubles: a
  finite value, an infinity or NaN. The finite doubles are some of the reals, so a finite
  number carries a real; the statements below hold for every real it may carry. The order
  of two numbers is the order of the reals, the infinities below and above, and NaN is
  neither below nor above nor equal to anything.
\<close>

datatype number = Finite real | PlusInfinity | MinusInfinity | NaN

fun lessThan250 :: "number \<Rightarrow> bool" where
  "lessThan250 (Finite r) = (r < 250)"
| "lessThan250 MinusInfinity = True"
| "lessThan250 PlusInfinity = False"
| "lessThan250 NaN = False"

fun greaterThan250 :: "number \<Rightarrow> bool" where
  "greaterThan250 (Finite r) = (r > 250)"
| "greaterThan250 PlusInfinity = True"
| "greaterThan250 MinusInfinity = False"
| "greaterThan250 NaN = False"

text \<open>
  The subtraction of two doubles is the exact difference rounded to the nearest double,
  ties to the one with an even significand: 53 significant bits, the exponent not below
  \<open>-1022\<close>, and an infinity from \<open>2 ^ 1024\<close> on. A difference with an infinity or NaN among
  its arguments follows the standard's table.
\<close>

definition roundHalfEven :: "real \<Rightarrow> int" where
  "roundHalfEven x =
     (let f = \<lfloor>x\<rfloor> in
      if x - of_int f < 1 / 2 then f
      else if x - of_int f > 1 / 2 then f + 1
      else if even f then f else f + 1)"

definition doubleRound :: "real \<Rightarrow> number" where
  "doubleRound r =
     (if r = 0 then Finite 0
      else
        (let e = max \<lfloor>log 2 \<bar>r\<bar>\<rfloor> (- 1022) - 52;
             q = of_int (roundHalfEven (r / 2 powr of_int e)) * 2 powr of_int e
         in if q \<ge> 2 ^ 1024 then PlusInfinity
            else if q \<le> - (2 ^ 1024) then MinusInfinity
            else Finite q))"

fun doubleSub :: "number \<Rightarrow> number \<Rightarrow> number" where
  "doubleSub NaN b = NaN"
| "doubleSub a NaN = NaN"
| "doubleSub PlusInfinity PlusInfinity = NaN"
| "doubleSub MinusInfinity MinusInfinity = NaN"
| "doubleSub PlusInfinity b = PlusInfinity"
| "doubleSub MinusInfinity b = MinusInfinity"
| "doubleSub (Finite a) PlusInfinity = MinusInfinity"
| "doubleSub (Finite a) MinusInfinity = PlusInfinity"
| "doubleSub (Finite a) (Finite b) = doubleRound (a - b)"

subsection \<open>The two classes\<close>

text \<open>
  \<open>Yielding\<close> and \<open>CheckYielding\<close> each hold one field, \<open>lastUpdated\<close>, 0 at creation.
  Every operation takes the clock reading \<open>t\<close> that its call of \<open>now()\<close> returns, and the
  subtraction \<open>sub\<close> of the numbers (in the code, \<open>doubleSub\<close>; nothing below depends on
  which function it is). \<open>Yielding_yield\<close> answers whether it returned a promise (the
  caller then suspends).
\<close>

record yielder =
  lastUpdated :: number

definition newYielder :: yielder where
  "newYielder = \<lparr>lastUpdated = Finite 0\<rparr>"

definition Yielding_yield ::
  "(number \<Rightarrow> number \<Rightarrow> number) \<Rightarrow> number \<Rightarrow> yielder \<Rightarrow> bool \<times> yielder" where
  "Yielding_yield sub t y =
     (if lessThan250 (sub t (lastUpdated y)) then (False, y)
      else (True, y\<lparr>lastUpdated := t\<rparr>))"

definition needsYield :: "(number \<Rightarrow> number \<Rightarrow> number) \<Rightarrow> number \<Rightarrow> yielder \<Rightarrow> bool" where
  "needsYield sub t y = greaterThan250 (sub t (lastUpdated y))"

definition CheckYielding_yield :: "number \<Rightarrow> yielder \<Rightarrow> bool \<times> yielder" where
  "CheckYielding_yield t y = (True, y\<lparr>lastUpdated := t\<rparr>)"

text \<open>
  The checkpoints of \<open>yielding1\<close> (\<open>(yy = y.yield())) await yy\<close>) and of \<open>testYielding\<close>
  (\<open>y.needsYield) await y.yield()\<close>) over the clock readings of successive checkpoints:
  for each checkpoint, whether the loop suspended there. A checkpoint of \<open>testYielding\<close>
  reads the clock twice, in \<open>needsYield\<close> (\<open>t\<close>) and, when that is true, again in \<open>yield\<close>
  (\<open>t'\<close>).
\<close>

fun maybeAwaitable ::
  "(number \<Rightarrow> number \<Rightarrow> number) \<Rightarrow> yielder \<Rightarrow> number list \<Rightarrow> bool list" where
  "maybeAwaitable sub y [] = []"
| "maybeAwaitable sub y (t # ts) =
     (case Yielding_yield sub t y of (suspended, y') \<Rightarrow> suspended # maybeAwaitable sub y' ts)"

fun checkThenYield ::
  "(number \<Rightarrow> number \<Rightarrow> number) \<Rightarrow> yielder \<Rightarrow> (number \<times> number) list \<Rightarrow> bool list" where
  "checkThenYield sub y [] = []"
| "checkThenYield sub y ((t, t') # ts) =
     (if needsYield sub t y then
        (case CheckYielding_yield t' y of
           (suspended, y') \<Rightarrow> suspended # checkThenYield sub y' ts)
      else False # checkThenYield sub y ts)"

text \<open>
  At every checkpoint of the readings \<open>ts\<close>, the difference computed between the reading
  and the update recorded before it is below or above 250 (so neither exactly 250 nor
  NaN), starting from the recorded update \<open>lastT\<close>.
\<close>

fun offBudget :: "(number \<Rightarrow> number \<Rightarrow> number) \<Rightarrow> number \<Rightarrow> number list \<Rightarrow> bool" where
  "offBudget sub lastT [] = True"
| "offBudget sub lastT (t # ts) =
     ((lessThan250 (sub t lastT) \<or> greaterThan250 (sub t lastT)) \<and>
      offBudget sub (if lessThan250 (sub t lastT) then lastT else t) ts)"

section \<open>Example datasets\<close>

text \<open>
  A vertex table of three rows with coordinates, normals, a red channel and a group
  property \<open>atomid\<close> whose identifiers (7, 2, 7) repeat and exceed the row count; a face
  list of one triangle and one quadrilateral; the file holding both.
\<close>

definition exVertex :: plyTable where
  "exVertex =
     \<lparr>rowCount = 3,
      properties =
        [(''x'', ArrayColumn [0, 1, 0]), (''y'', ArrayColumn [0, 0, 1]),
         (''z'', ArrayColumn [5, 5, 5]),
         (''nx'', ArrayColumn [0, 0, 0]), (''ny'', ArrayColumn [0, 0, 0]),
         (''nz'', ArrayColumn [1, 1, 1]),
         (''red'', ArrayColumn [255, 10, 20]),
         (''atomid'', ArrayColumn [7, 2, 7])]\<rparr>"

definition exFace :: plyList where
  "exFace = [\<lparr>entries = [0, 1, 2], count = 3\<rparr>, \<lparr>entries = [0, 1, 2, 0], count = 4\<rparr>]"

definition exFile :: plyFile where
  "exFile = \<lparr>fileId = 1, vertexElement = Some exVertex, faceElement = Some exFace\<rparr>"

definition propsNone :: props where
  "propsNone = \<lparr>coloring = ColoringUniform (Rgb 10 20 30), grouping = GroupingNone\<rparr>"

definition propsAtomid :: props where
  "propsAtomid = \<lparr>coloring = ColoringUniform (Rgb 10 20 30), grouping = GroupingVertex ''atomid''\<rparr>"

definition propsRecolored :: props where
  "propsRecolored =
     \<lparr>coloring = ColoringVertex ''red'' ''green'' ''blue'', grouping = GroupingNone\<rparr>"

text \<open>A second file whose one-row vertex table has no \<open>x\<close> property.\<close>

definition exVertexNoX :: plyTable where
  "exVertexNoX =
     \<lparr>rowCount = 1,
      properties =
        [(''y'', ArrayColumn [0]), (''z'', ArrayColumn [0]), (''atomid'', ArrayColumn [4])]\<rparr>"

definition exFileNoX :: plyFile where
  "exFileNoX = \<lparr>fileId = 2, vertexElement = Some exVertexNoX, faceElement = Some exFace\<rparr>"

text \<open>
  What the builders make of \<open>exFile\<close>: the mesh for given group identifiers, the two
  groupings, the two colorings, and the shapes and caches of the calls used below.
\<close>

definition emptyState :: builderState where
  "emptyState = \<lparr>vertices = [], normals = [], indices = [], groups = []\<rparr>"

definition exMesh :: "nat list \<Rightarrow> mesh" where
  "exMesh groupIds =
     \<lparr>vertexCount = 3, triangleCount = 1,
      vertexBuffer = [Some 0, Some 0, Some 5, Some 1, Some 0, Some 5, Some 0, Some 1, Some 5],
      normalBuffer = AppendedNormals
        [Some 0, Some 0, Some 1, Some 0, Some 0, Some 1, Some 0, Some 0, Some 1],
      indexBuffer = [Some 0, Some 1, Some 2],
      groupBuffer = map (\<lambda>g. Some (int g)) groupIds,
      normalsComputed = True\<rparr>"

definition serialGrouping :: Grouping where
  "serialGrouping = \<lparr>ids = [0, 1, 2], map' = [0, 1, 2]\<rparr>"

definition atomidGrouping :: Grouping where
  "atomidGrouping = \<lparr>ids = [7, 2, 7], map' = [0, 0, 1, 0, 0, 0, 0, 2]\<rparr>"

definition uniformColoring :: Coloring where
  "uniformColoring = \<lparr>red = ofConst 10 3, green = ofConst 20 3, blue = ofConst 30 3\<rparr>"

definition vertexColoring :: Coloring where
  "vertexColoring =
     \<lparr>red = ArrayColumn [255, 10, 20], green = ofConst 127 3, blue = ofConst 127 3\<rparr>"

definition exShape :: shape where
  "exShape =
     \<lparr>shapeName = ''ply-mesh'', sourceData = exFile, geometry = Some (6, exMesh [0, 1, 2]),
      capturedColoring = (0, uniformColoring), capturedGrouping = (1, serialGrouping)\<rparr>"

definition exCache :: shapeGetter where
  "exCache =
     \<lparr>c_plyFile = Some exFile, c_props = Some propsNone, c_shape = Some (7, exShape),
      c_mesh = Some (6, exMesh [0, 1, 2]), c_coloring = Some (0, uniformColoring),
      c_grouping = Some (1, serialGrouping)\<rparr>"

definition exShapeAtomid :: shape where
  "exShapeAtomid =
     \<lparr>shapeName = ''ply-mesh'', sourceData = exFile, geometry = Some (6, exMesh [7, 2, 7]),
      capturedColoring = (0, uniformColoring), capturedGrouping = (1, atomidGrouping)\<rparr>"

text \<open>The cache \<open>exCache\<close> after a cancelled rebuild and after a rebuild that misses \<open>x\<close>.\<close>

definition cancelledCache :: shapeGetter where
  "cancelledCache =
     exCache\<lparr>c_coloring := Some (8, uniformColoring), c_grouping := Some (9, atomidGrouping)\<rparr>"

definition missingCache :: shapeGetter where
  "missingCache =
     exCache\<lparr>c_coloring :=
               Some (8, \<lparr>red = ofConst 10 1, green = ofConst 20 1, blue = ofConst 30 1\<rparr>),
             c_grouping := Some (9, \<lparr>ids = [0], map' = [0]\<rparr>)\<rparr>"

text \<open>The shape a color-only rebuild makes from \<open>cancelledCache\<close>.\<close>

definition staleShape :: shape where
  "staleShape =
     \<lparr>shapeName = ''ply-mesh'', sourceData = exFile, geometry = Some (6, exMesh [0, 1, 2]),
      capturedColoring = (14, vertexColoring), capturedGrouping = (9, atomidGrouping)\<rparr>"

section \<open>Properties of the grouping resolver\<close>

lemma groupingLoop_length: "length (groupingLoop idArray i m) = length m"
proof (induction idArray i m rule: groupingLoop.induct)
  case (1 idArray i m)
  then show ?case by (simp add: groupingLoop.simps [of idArray i m])
qed

lemma groupingLoop_untouched:
  "(\<And>j. i \<le> j \<Longrightarrow> j < length idArray \<Longrightarrow> idArray ! j \<noteq> k) \<Longrightarrow>
   groupingLoop idArray i m ! k = m ! k"
proof (induction idArray i m rule: groupingLoop.induct)
  case (1 idArray i m)
  show ?case
  proof (cases "i < length idArray")
    case True
    have "groupingLoop idArray (Suc i) (m[idArray ! i := i]) ! k = (m[idArray ! i := i]) ! k"
      using "1.IH" [OF True] "1.prems" by simp
    moreover have "idArray ! i \<noteq> k" using "1.prems" [of i] True by simp
    ultimately show ?thesis using True by (simp add: groupingLoop.simps [of idArray i m])
  next
    case False
    then show ?thesis by (simp add: groupingLoop.simps [of idArray i m])
  qed
qed

lemma groupingLoop_last_row:
  "i \<le> r \<Longrightarrow> r < length idArray \<Longrightarrow> idArray ! r < length m \<Longrightarrow>
   (\<And>j. r < j \<Longrightarrow> j < length idArray \<Longrightarrow> idArray ! j \<noteq> idArray ! r) \<Longrightarrow>
   groupingLoop idArray i m ! (idArray ! r) = r"
proof (induction idArray i m rule: groupingLoop.induct)
  case (1 idArray i m)
  from "1.prems" have lt: "i < length idArray" by simp
  show ?case
  proof (cases "i = r")
    case True
    have "groupingLoop idArray (Suc r) (m[idArray ! r := r]) ! (idArray ! r) =
          (m[idArray ! r := r]) ! (idArray ! r)"
      by (rule groupingLoop_untouched) (use "1.prems" in simp)
    then show ?thesis using True lt "1.prems"
      by (simp add: groupingLoop.simps [of idArray r m])
  next
    case False
    with "1.prems" have "Suc i \<le> r" by simp
    then have "groupingLoop idArray (Suc i) (m[idArray ! i := i]) ! (idArray ! r) = r"
      using "1.IH" [OF lt] "1.prems" by simp
    then show ?thesis using lt by (simp add: groupingLoop.simps [of idArray i m])
  qed
qed

lemma arrayMax_Max: "arrayMax xs = Some n \<Longrightarrow> n = Max (set xs) \<and> xs \<noteq> []"
proof -
  assume a: "arrayMax xs = Some n"
  then have ne: "xs \<noteq> []" by (auto simp: arrayMax_def split: if_splits)
  from a ne have "n = fold max xs 0" by (simp add: arrayMax_def)
  also have "\<dots> = Max (set (0 # xs))" by (rule Max.set_eq_fold [symmetric])
  also have "\<dots> = Max (set xs)" using ne by (simp add: max_def)
  finally show ?thesis using ne by simp
qed

lemma getGrouping_atomid:
  "getGrouping exVertex propsAtomid = Inr \<lparr>ids = [7, 2, 7], map' = [0, 0, 1, 0, 0, 0, 0, 2]\<rparr>"
  by (simp add: getGrouping_def exVertex_def propsAtomid_def getProperty_def toUint32_def
      arrayMax_def newUint32Array_def groupingLoop.simps numeral_eq_Suc)

lemma getGrouping_none:
  "getGrouping exVertex propsNone = Inr \<lparr>ids = [0, 1, 2], map' = [0, 1, 2]\<rparr>"
  by (simp add: getGrouping_def exVertex_def propsNone_def fillSerial_def Let_def
      arrayMax_def newUint32Array_def groupingLoop.simps numeral_eq_Suc upt_rec)

lemma getGrouping_empty:
  "getGrouping \<lparr>rowCount = 0, properties = []\<rparr> propsNone = Inl RangeError"
  by (simp add: getGrouping_def propsNone_def fillSerial_def newUint32Array_def arrayMax_def)

lemma getGrouping_absent:
  "getGrouping exVertex \<lparr>coloring = ColoringUniform (Rgb 10 20 30), grouping = GroupingVertex ''id''\<rparr> =
     Inr \<lparr>ids = [0, 1, 2], map' = [0, 1, 2]\<rparr>"
  by (simp add: getGrouping_def exVertex_def getProperty_def fillSerial_def Let_def
      arrayMax_def newUint32Array_def groupingLoop.simps numeral_eq_Suc upt_rec)

lemma upt_0_3: "[0..<3] = [0, 1, 2]"
  by (simp add: numeral_eq_Suc upt_rec)

lemma toArrayUint32_rows:
  "length (toArrayUint32 c) = columnRowCount c \<and>
   (\<forall>i<columnRowCount c. \<exists>v. columnValue c i = Some v \<and> toArrayUint32 c ! i = toUint32 v)"
  by (cases c) (simp_all add: arrayGet_def)

text \<open>Every row's identifier has a last row, and the loop leaves that row in the map.\<close>

lemma last_row_exists:
  assumes "i < length idArray"
  obtains j where "i \<le> j" "j < length idArray" "idArray ! j = idArray ! i"
    "\<forall>j'. j < j' \<and> j' < length idArray \<longrightarrow> idArray ! j' \<noteq> idArray ! i"
proof -
  let ?S = "{j. j < length idArray \<and> idArray ! j = idArray ! i}"
  have fin: "finite ?S" by simp
  from assms have mem: "i \<in> ?S" by simp
  then have ne: "?S \<noteq> {}" by blast
  from Max_in [OF fin ne] have m: "Max ?S < length idArray" "idArray ! Max ?S = idArray ! i"
    by simp_all
  from Max_ge [OF fin mem] have ge: "i \<le> Max ?S" .
  have later: "\<forall>j'. Max ?S < j' \<and> j' < length idArray \<longrightarrow> idArray ! j' \<noteq> idArray ! i"
  proof (intro allI impI notI)
    fix j'
    assume a: "Max ?S < j' \<and> j' < length idArray" and e: "idArray ! j' = idArray ! i"
    then have "j' \<in> ?S" by simp
    from Max_ge [OF fin this] a show False by simp
  qed
  from that [OF ge m later] show thesis .
qed

text \<open>
  C5: \<open>getGrouping\<close> takes as identifiers the values of the selected column, read as
  unsigned 32-bit integers, or 0, 1, ..., rowCount - 1 when no grouping is selected or
  the table has no such property. With at least one row it returns: \<open>ids\<close> are these
  identifiers, \<open>map\<close> has length maximum identifier plus one, for every row \<open>i\<close> the entry
  \<open>map[ids[i]]\<close> is the last row carrying the identifier of row \<open>i\<close> (so it is \<open>i\<close> itself
  when no later row repeats it: last write wins), and an entry for a number that is no
  row's identifier is 0. With no row there is no maximum and the length of the map is
  invalid.
\<close>

theorem getGrouping_map_invariant:
  "(idArray =
      (case grouping props of
         GroupingNone \<Rightarrow> [0..<rowCount vertex]
       | GroupingVertex name \<Rightarrow>
           (case getProperty vertex name of
              None \<Rightarrow> [0..<rowCount vertex]
            | Some c \<Rightarrow> toArrayUint32 c)) \<longrightarrow>
    (idArray = [] \<longrightarrow> getGrouping vertex props = Inl RangeError) \<and>
    (idArray \<noteq> [] \<longrightarrow>
       (\<exists>m. getGrouping vertex props = Inr \<lparr>ids = idArray, map' = m\<rparr> \<and>
          length m = Max (set idArray) + 1 \<and>
          (\<forall>i<length idArray.
             \<exists>j. i \<le> j \<and> j < length idArray \<and> idArray ! j = idArray ! i \<and>
               (\<forall>j'. j < j' \<and> j' < length idArray \<longrightarrow> idArray ! j' \<noteq> idArray ! i) \<and>
               m ! (idArray ! i) = j) \<and>
          (\<forall>i<length idArray.
             (\<forall>j. i < j \<and> j < length idArray \<longrightarrow> idArray ! j \<noteq> idArray ! i) \<longrightarrow>
             m ! (idArray ! i) = i) \<and>
          (\<forall>k<length m. k \<notin> set idArray \<longrightarrow> m ! k = 0)))) \<and>
   length (toArrayUint32 c) = columnRowCount c \<and>
   (\<forall>i<columnRowCount c. \<exists>v. columnValue c i = Some v \<and> toArrayUint32 c ! i = toUint32 v)"
proof (intro conjI impI)
  assume sel: "idArray =
      (case grouping props of
         GroupingNone \<Rightarrow> [0..<rowCount vertex]
       | GroupingVertex name \<Rightarrow>
           (case getProperty vertex name of
              None \<Rightarrow> [0..<rowCount vertex]
            | Some c \<Rightarrow> toArrayUint32 c))"
  have unfolded: "getGrouping vertex props =
      (case arrayMax idArray of
         None \<Rightarrow> Inl RangeError
       | Some maxId \<Rightarrow>
           Inr \<lparr>ids = idArray, map' = groupingLoop idArray 0 (newUint32Array (maxId + 1))\<rparr>)"
    by (simp add: getGrouping_def Let_def sel fillSerial_def newUint32Array_def
        split: groupingParams.splits option.splits)
  {
    assume "idArray = []"
    then show "getGrouping vertex props = Inl RangeError"
      by (simp add: unfolded arrayMax_def)
  }
  {
    assume ne: "idArray \<noteq> []"
    define maxId where "maxId = fold max idArray 0"
    define m where "m = groupingLoop idArray 0 (newUint32Array (maxId + 1))"
    from ne have mx: "arrayMax idArray = Some maxId" by (simp add: arrayMax_def maxId_def)
    from arrayMax_Max [OF mx] have maxId: "maxId = Max (set idArray)" by simp
    have ret: "getGrouping vertex props = Inr \<lparr>ids = idArray, map' = m\<rparr>"
      by (simp add: unfolded mx m_def)
    have len: "length m = Max (set idArray) + 1"
      by (simp add: m_def groupingLoop_length newUint32Array_def maxId)
    have last: "m ! (idArray ! r) = r"
      if r: "r < length idArray"
        and later: "\<forall>j. r < j \<and> j < length idArray \<longrightarrow> idArray ! j \<noteq> idArray ! r" for r
    proof -
      from r have "idArray ! r \<le> Max (set idArray)" by simp
      then have in_range: "idArray ! r < length (newUint32Array (maxId + 1))"
        by (simp add: newUint32Array_def maxId)
      show ?thesis unfolding m_def
        by (rule groupingLoop_last_row [OF _ r in_range]) (use later in simp_all)
    qed
    have rows: "\<exists>j. i \<le> j \<and> j < length idArray \<and> idArray ! j = idArray ! i \<and>
               (\<forall>j'. j < j' \<and> j' < length idArray \<longrightarrow> idArray ! j' \<noteq> idArray ! i) \<and>
               m ! (idArray ! i) = j" if i: "i < length idArray" for i
    proof -
      from last_row_exists [OF i] obtain j where j: "i \<le> j" "j < length idArray"
        "idArray ! j = idArray ! i"
        "\<forall>j'. j < j' \<and> j' < length idArray \<longrightarrow> idArray ! j' \<noteq> idArray ! i" by blast
      from j(3,4) have "\<forall>j'. j < j' \<and> j' < length idArray \<longrightarrow> idArray ! j' \<noteq> idArray ! j"
        by simp
      from last [OF j(2) this] j(3) have "m ! (idArray ! i) = j" by simp
      with j show ?thesis by blast
    qed
    have others: "m ! k = 0" if k: "k < length m" and nk: "k \<notin> set idArray" for k
    proof -
      have "groupingLoop idArray 0 (newUint32Array (maxId + 1)) ! k =
            newUint32Array (maxId + 1) ! k"
        by (rule groupingLoop_untouched) (use nk in \<open>auto simp: in_set_conv_nth\<close>)
      moreover from k have "k < maxId + 1" by (simp add: len maxId)
      then have "newUint32Array (maxId + 1) ! k = 0"
        unfolding newUint32Array_def by (rule nth_replicate)
      ultimately show ?thesis by (simp only: m_def)
    qed
    from ret len rows last others
    show "\<exists>m. getGrouping vertex props = Inr \<lparr>ids = idArray, map' = m\<rparr> \<and>
          length m = Max (set idArray) + 1 \<and>
          (\<forall>i<length idArray.
             \<exists>j. i \<le> j \<and> j < length idArray \<and> idArray ! j = idArray ! i \<and>
               (\<forall>j'. j < j' \<and> j' < length idArray \<longrightarrow> idArray ! j' \<noteq> idArray ! i) \<and>
               m ! (idArray ! i) = j) \<and>
          (\<forall>i<length idArray.
             (\<forall>j. i < j \<and> j < length idArray \<longrightarrow> idArray ! j \<noteq> idArray ! i) \<longrightarrow>
             m ! (idArray ! i) = i) \<and>
          (\<forall>k<length m. k \<notin> set idArray \<longrightarrow> m ! k = 0)"
      by blast
  }
next
  show "length (toArrayUint32 c) = columnRowCount c"
    using toArrayUint32_rows [of c] by blast
next
  show "\<forall>i<columnRowCount c. \<exists>v. columnValue c i = Some v \<and> toArrayUint32 c ! i = toUint32 v"
    using toArrayUint32_rows [of c] by blast
qed

theorem getGrouping_map_invariant_witness:
  "getGrouping exVertex propsAtomid = Inr \<lparr>ids = [7, 2, 7], map' = [0, 0, 1, 0, 0, 0, 0, 2]\<rparr> \<and>
   grouping propsAtomid = GroupingVertex ''atomid'' \<and>
   getProperty exVertex ''atomid'' = Some (ArrayColumn [7, 2, 7]) \<and>
   toArrayUint32 (ArrayColumn [7, 2, 7]) = [7, 2, 7] \<and>
   length [0, 0, 1, 0, 0, 0, 0, 2 :: nat] = Max (set [7, 2, 7 :: nat]) + 1 \<and>
   [0, 0, 1, 0, 0, 0, 0, 2 :: nat] ! ([7, 2, 7] ! 0) = 2 \<and>
   [0, 0, 1, 0, 0, 0, 0, 2 :: nat] ! ([7, 2, 7] ! 2) = 2 \<and>
   [0, 0, 1, 0, 0, 0, 0, 2 :: nat] ! ([7, 2, 7] ! 1) = 1 \<and>
   grouping propsNone = GroupingNone \<and>
   getGrouping exVertex propsNone = Inr \<lparr>ids = [0, 1, 2], map' = [0, 1, 2]\<rparr> \<and>
   [0, 1, 2] = [0..<rowCount exVertex] \<and>
   getProperty exVertex ''id'' = None \<and>
   getGrouping exVertex
       \<lparr>coloring = ColoringUniform (Rgb 10 20 30), grouping = GroupingVertex ''id''\<rparr> =
     Inr \<lparr>ids = [0, 1, 2], map' = [0, 1, 2]\<rparr> \<and>
   getGrouping \<lparr>rowCount = 0, properties = []\<rparr> propsNone = Inl RangeError"
proof -
  have sel1: "[7, 2, 7] =
      (case grouping propsAtomid of
         GroupingNone \<Rightarrow> [0..<rowCount exVertex]
       | GroupingVertex name \<Rightarrow>
           (case getProperty exVertex name of
              None \<Rightarrow> [0..<rowCount exVertex]
            | Some c \<Rightarrow> toArrayUint32 c))"
    by (simp add: propsAtomid_def exVertex_def getProperty_def toUint32_def)
  have sel2: "[0, 1, 2] =
      (case grouping propsNone of
         GroupingNone \<Rightarrow> [0..<rowCount exVertex]
       | GroupingVertex name \<Rightarrow>
           (case getProperty exVertex name of
              None \<Rightarrow> [0..<rowCount exVertex]
            | Some c \<Rightarrow> toArrayUint32 c))"
    by (simp add: propsNone_def exVertex_def upt_0_3)
  have sel3: "[] =
      (case grouping propsNone of
         GroupingNone \<Rightarrow> [0..<rowCount \<lparr>rowCount = 0, properties = []\<rparr>]
       | GroupingVertex name \<Rightarrow>
           (case getProperty \<lparr>rowCount = 0, properties = []\<rparr> name of
              None \<Rightarrow> [0..<rowCount \<lparr>rowCount = 0, properties = []\<rparr>]
            | Some c \<Rightarrow> toArrayUint32 c))"
    by (simp add: propsNone_def)
  note t1 = getGrouping_map_invariant [where idArray = "[7, 2, 7]" and props = propsAtomid
      and vertex = exVertex, THEN conjunct1, THEN mp, OF sel1, THEN conjunct2, THEN mp]
  note t2 = getGrouping_map_invariant [where idArray = "[0, 1, 2]" and props = propsNone
      and vertex = exVertex, THEN conjunct1, THEN mp, OF sel2, THEN conjunct2, THEN mp]
  note t3 = getGrouping_map_invariant [where idArray = "[]" and props = propsNone
      and vertex = "\<lparr>rowCount = 0, properties = []\<rparr>", THEN conjunct1, THEN mp, OF sel3,
      THEN conjunct1, THEN mp, OF refl]
  have "\<exists>m. getGrouping exVertex propsAtomid = Inr \<lparr>ids = [7, 2, 7], map' = m\<rparr> \<and>
          length m = Max (set [7, 2, 7]) + 1"
    using t1 by blast
  then have a: "length [0, 0, 1, 0, 0, 0, 0, 2 :: nat] = Max (set [7, 2, 7 :: nat]) + 1"
    by (simp add: getGrouping_atomid)
  have "\<exists>m. getGrouping exVertex propsNone = Inr \<lparr>ids = [0, 1, 2], map' = m\<rparr>"
    using t2 by blast
  then have b: "getGrouping exVertex propsNone = Inr \<lparr>ids = [0, 1, 2], map' = [0, 1, 2]\<rparr>"
    by (simp add: getGrouping_none)
  from a b t3 getGrouping_atomid getGrouping_absent show ?thesis
    by (simp add: propsNone_def propsAtomid_def exVertex_def getProperty_def toUint32_def
        upt_0_3)
qed

section \<open>Properties of the coloring resolver\<close>

text \<open>
  C8: \<open>getColoring\<close> has no failing branch. In per-vertex mode each channel is the named
  column when the table has it and otherwise the constant column 127 over the vertex row
  count, independently of the other channels; in uniform mode the three channels are the
  constant columns of the color's red, green and blue components over the vertex row
  count. A constant column answers its constant at every row.
\<close>

theorem getColoring_channels:
  "(coloring props = ColoringVertex r g b \<longrightarrow>
      (\<forall>c. getProperty vertex r = Some c \<longrightarrow> red (getColoring vertex props) = c) \<and>
      (getProperty vertex r = None \<longrightarrow>
         red (getColoring vertex props) = ofConst 127 (rowCount vertex)) \<and>
      (\<forall>c. getProperty vertex g = Some c \<longrightarrow> green (getColoring vertex props) = c) \<and>
      (getProperty vertex g = None \<longrightarrow>
         green (getColoring vertex props) = ofConst 127 (rowCount vertex)) \<and>
      (\<forall>c. getProperty vertex b = Some c \<longrightarrow> blue (getColoring vertex props) = c) \<and>
      (getProperty vertex b = None \<longrightarrow>
         blue (getColoring vertex props) = ofConst 127 (rowCount vertex))) \<and>
   (coloring props = ColoringUniform c \<longrightarrow>
      getColoring vertex props =
        \<lparr>red = ofConst (fst (toRgb c)) (rowCount vertex),
         green = ofConst (fst (snd (toRgb c))) (rowCount vertex),
         blue = ofConst (snd (snd (toRgb c))) (rowCount vertex)\<rparr>) \<and>
   columnRowCount (ofConst v (rowCount vertex)) = rowCount vertex \<and>
   columnValue (ofConst v (rowCount vertex)) i = Some v"
  by (cases "toRgb c") (simp add: getColoring_def orElse_def ofConst_def)

theorem getColoring_channels_witness:
  "coloring \<lparr>coloring = ColoringVertex ''red'' ''green'' [], grouping = GroupingNone\<rparr> =
     ColoringVertex ''red'' ''green'' [] \<and>
   getProperty exVertex ''red'' = Some (ArrayColumn [255, 10, 20]) \<and>
   getProperty exVertex ''green'' = None \<and> getProperty exVertex [] = None \<and>
   getColoring exVertex \<lparr>coloring = ColoringVertex ''red'' ''green'' [], grouping = GroupingNone\<rparr> =
     \<lparr>red = ArrayColumn [255, 10, 20], green = ofConst 127 3, blue = ofConst 127 3\<rparr> \<and>
   getProperty exVertex ''atomid'' = Some (ArrayColumn [7, 2, 7]) \<and>
   getColoring exVertex \<lparr>coloring = ColoringVertex [] ''red'' ''atomid'', grouping = GroupingNone\<rparr> =
     \<lparr>red = ofConst 127 3, green = ArrayColumn [255, 10, 20], blue = ArrayColumn [7, 2, 7]\<rparr> \<and>
   coloring propsNone = ColoringUniform (Rgb 10 20 30) \<and>
   getColoring exVertex propsNone = \<lparr>red = ofConst 10 3, green = ofConst 20 3, blue = ofConst 30 3\<rparr>"
  using getColoring_channels [of "\<lparr>coloring = ColoringVertex ''red'' ''green'' [], grouping = GroupingNone\<rparr>"
      "''red''" "''green''" "[]" exVertex "Rgb 0 0 0" 0 0]
    getColoring_channels [of "\<lparr>coloring = ColoringVertex [] ''red'' ''atomid'', grouping = GroupingNone\<rparr>"
      "[]" "''red''" "''atomid''" exVertex "Rgb 0 0 0" 0 0]
    getColoring_channels [of propsNone "[]" "[]" "[]" exVertex "Rgb 10 20 30" 0 0]
  by (simp add: exVertex_def getProperty_def propsNone_def getColoring_def orElse_def)

section \<open>Properties of the mesh builder\<close>

lemma checkpoint_cases:
  "checkpoint i ctx = Inl e \<Longrightarrow>
   e = Cancelled \<and> i mod 100000 = 0 \<and> ctx \<noteq> [] \<and> hd ctx = CancelObserved"
  by (auto simp: checkpoint_def split: if_splits list.splits observation.splits)

lemma checkpoint_no_cancel:
  "CancelObserved \<notin> set ctx \<Longrightarrow>
   \<exists>ctx'. checkpoint i ctx = Inr ctx' \<and> CancelObserved \<notin> set ctx'"
  by (auto simp: checkpoint_def split: list.splits observation.splits)

lemma length_concat_triples:
  "length (concat (map (\<lambda>k. [f k, g k, h k]) ks)) = 3 * length ks"
  by (induction ks) simp_all

lemma concat_triples_nth:
  "k < n \<Longrightarrow>
   concat (map (\<lambda>k. [f k, g k, h k]) [0..<n]) ! (3 * k) = f k \<and>
   concat (map (\<lambda>k. [f k, g k, h k]) [0..<n]) ! (3 * k + 1) = g k \<and>
   concat (map (\<lambda>k. [f k, g k, h k]) [0..<n]) ! (3 * k + 2) = h k"
proof (induction n)
  case 0
  then show ?case by simp
next
  case (Suc n)
  let ?c = "concat (map (\<lambda>k. [f k, g k, h k]) [0..<n])"
  have len: "length ?c = 3 * n" by (simp add: length_concat_triples)
  show ?case
  proof (cases "k < n")
    case True
    with Suc.IH len show ?thesis by (simp add: nth_append)
  next
    case False
    with Suc.prems have "k = n" by simp
    with len show ?thesis by (simp add: nth_append)
  qed
qed

text \<open>The vertex loop from row \<open>i\<close> on appends rows \<open>i, ..., il - 1\<close>, in this order.\<close>

lemma vertexLoop_result:
  "vertexLoop x y z hasNormals groupIds il i ctx st = Inr (st', ctx') \<Longrightarrow>
   vertices st' = vertices st @
     concat (map (\<lambda>k. [columnValue x k, columnValue y k, columnValue z k]) [i..<il]) \<and>
   normals st' = normals st @
     (case hasNormals of
        None \<Rightarrow> []
      | Some (nx, ny, nz) \<Rightarrow>
          concat (map (\<lambda>k. [columnValue nx k, columnValue ny k, columnValue nz k]) [i..<il])) \<and>
   groups st' = groups st @ map (\<lambda>k. map_option int (arrayGet groupIds k)) [i..<il] \<and>
   indices st' = indices st"
proof (induction x y z hasNormals groupIds il i ctx st rule: vertexLoop.induct)
  case (1 x y z hasNormals groupIds il i ctx st)
  show ?case
  proof (cases "i < il")
    case False
    with "1.prems" show ?thesis
      by (simp add: vertexLoop.simps [of x y z hasNormals groupIds il i ctx st]
          split: option.splits)
  next
    case True
    with "1.prems" obtain ctx1 where cp: "checkpoint i ctx = Inr ctx1"
      and rest: "vertexLoop x y z hasNormals groupIds il (Suc i) ctx1
                   (addVertex x y z hasNormals groupIds i st) = Inr (st', ctx')"
      by (auto simp: vertexLoop.simps [of x y z hasNormals groupIds il i ctx st]
          split: sum.splits)
    note ih = "1.IH" [OF True cp rest]
    from True have upt: "[i..<il] = i # [Suc i..<il]" by (simp add: upt_conv_Cons)
    show ?thesis
      using ih unfolding upt
      by (auto simp: addVertex_def add3_def add_def Let_def split: option.splits)
  qed
qed

text \<open>The face loop from row \<open>i\<close> on appends the triangles among rows \<open>i, ...\<close>.\<close>

lemma faceLoop_result:
  "faceLoop face i ctx st = Inr (st', ctx') \<Longrightarrow>
   indices st' = indices st @
     concat (map (\<lambda>row. [arrayGet (entries row) 0, arrayGet (entries row) 1,
                          arrayGet (entries row) 2])
               (filter (\<lambda>row. count row = 3) (drop i face))) \<and>
   vertices st' = vertices st \<and> normals st' = normals st \<and> groups st' = groups st"
proof (induction face i ctx st rule: faceLoop.induct)
  case (1 face i ctx st)
  show ?case
  proof (cases "i < length face")
    case False
    with "1.prems" show ?thesis
      by (simp add: faceLoop.simps [of face i ctx st])
  next
    case True
    with "1.prems" obtain ctx1 where cp: "checkpoint i ctx = Inr ctx1"
      and rest: "faceLoop face (Suc i) ctx1 (addFace (face ! i) st) = Inr (st', ctx')"
      by (auto simp: faceLoop.simps [of face i ctx st] split: sum.splits)
    note ih = "1.IH" [OF True cp rest]
    from True have dr: "drop i face = face ! i # drop (Suc i) face"
      by (simp add: Cons_nth_drop_Suc)
    show ?thesis
      using ih unfolding dr
      by (auto simp: addFace_def add3_def)
  qed
qed

lemma faceLoop_error: "faceLoop face i ctx st = Inl e \<Longrightarrow> e = Cancelled"
proof (induction face i ctx st rule: faceLoop.induct)
  case (1 face i ctx st)
  show ?case
  proof (cases "i < length face")
    case False
    with "1.prems" show ?thesis by (simp add: faceLoop.simps [of face i ctx st])
  next
    case True
    show ?thesis
    proof (cases "checkpoint i ctx")
      case (Inl e')
      with True "1.prems" have "e = e'" by (simp add: faceLoop.simps [of face i ctx st])
      with checkpoint_cases [OF Inl] show ?thesis by simp
    next
      case (Inr ctx1)
      with True "1.prems" have "faceLoop face (Suc i) ctx1 (addFace (face ! i) st) = Inl e"
        by (simp add: faceLoop.simps [of face i ctx st])
      from "1.IH" [OF True Inr this] show ?thesis .
    qed
  qed
qed

lemma faceLoop_no_cancel:
  "CancelObserved \<notin> set ctx \<Longrightarrow>
   \<exists>st' ctx'. faceLoop face i ctx st = Inr (st', ctx') \<and> CancelObserved \<notin> set ctx'"
proof (induction face i ctx st rule: faceLoop.induct)
  case (1 face i ctx st)
  show ?case
  proof (cases "i < length face")
    case False
    with "1.prems" show ?thesis
      by (simp add: faceLoop.simps [of face i ctx st])
  next
    case True
    from checkpoint_no_cancel [OF "1.prems"] obtain ctx1
      where cp: "checkpoint i ctx = Inr ctx1" and nc: "CancelObserved \<notin> set ctx1" by blast
    from "1.IH" [OF True cp nc] True cp show ?thesis
      by (simp add: faceLoop.simps [of face i ctx st])
  qed
qed

lemma vertexLoop_no_cancel:
  "CancelObserved \<notin> set ctx \<Longrightarrow>
   \<exists>st' ctx'. vertexLoop x y z hasNormals groupIds il i ctx st = Inr (st', ctx') \<and>
     CancelObserved \<notin> set ctx'"
proof (induction x y z hasNormals groupIds il i ctx st rule: vertexLoop.induct)
  case (1 x y z hasNormals groupIds il i ctx st)
  show ?case
  proof (cases "i < il")
    case False
    with "1.prems" show ?thesis
      by (simp add: vertexLoop.simps [of x y z hasNormals groupIds il i ctx st])
  next
    case True
    from checkpoint_no_cancel [OF "1.prems"] obtain ctx1
      where cp: "checkpoint i ctx = Inr ctx1" and nc: "CancelObserved \<notin> set ctx1" by blast
    from "1.IH" [OF True cp nc] True cp show ?thesis
      by (simp add: vertexLoop.simps [of x y z hasNormals groupIds il i ctx st])
  qed
qed

text \<open>With its coordinates present and no cancellation to observe, \<open>getMesh\<close> returns.\<close>

lemma getMesh_returns:
  assumes x: "getProperty vertex ''x'' = Some x" and y: "getProperty vertex ''y'' = Some y"
    and z: "getProperty vertex ''z'' = Some z" and nc: "CancelObserved \<notin> set ctx"
  shows "\<exists>m. getMesh ctx vertex face groupIds previous h = (Inr (h + 4, m), h + 5)"
proof -
  let ?hn = "normalColumns (getProperty vertex ''nx'') (getProperty vertex ''ny'')
        (getProperty vertex ''nz'')"
  from vertexLoop_no_cancel [OF nc] obtain st1 ctx1 where
    vl: "vertexLoop x y z ?hn groupIds (rowCount vertex) 0 ctx
        \<lparr>vertices = [], normals = [], indices = [], groups = []\<rparr> = Inr (st1, ctx1)"
    and nc1: "CancelObserved \<notin> set ctx1" by blast
  from faceLoop_no_cancel [OF nc1] obtain st2 ctx2 where
    fl: "faceLoop face 0 ctx1 st1 = Inr (st2, ctx2)" by blast
  show ?thesis
    by (simp add: getMesh_def createState_def x y z vl fl new_def)
qed

text \<open>What a successful \<open>getMesh\<close> returns, in terms of the two loops.\<close>

lemma getMesh_Inr:
  assumes "getMesh ctx vertex face groupIds previous h = (Inr r, h')"
  obtains x y z st1 ctx1 st2 ctx2 where
    "getProperty vertex ''x'' = Some x" "getProperty vertex ''y'' = Some y"
    "getProperty vertex ''z'' = Some z"
    "vertexLoop x y z (normalColumns (getProperty vertex ''nx'') (getProperty vertex ''ny'')
        (getProperty vertex ''nz'')) groupIds (rowCount vertex) 0 ctx
        \<lparr>vertices = [], normals = [], indices = [], groups = []\<rparr> = Inr (st1, ctx1)"
    "faceLoop face 0 ctx1 st1 = Inr (st2, ctx2)"
    "r = (h + 4, computeNormals ((builderGetMesh st2)\<lparr>normalsComputed :=
           (normalColumns (getProperty vertex ''nx'') (getProperty vertex ''ny'')
              (getProperty vertex ''nz'') \<noteq> None)\<rparr>))"
    "h' = h + 5"
  using assms
  by (auto simp: getMesh_def createState_def new_def Let_def
      split: option.splits sum.splits prod.splits)

text \<open>The builders on the example file.\<close>

lemma exVertex_props:
  "getProperty exVertex ''x'' = Some (ArrayColumn [0, 1, 0])"
  "getProperty exVertex ''y'' = Some (ArrayColumn [0, 0, 1])"
  "getProperty exVertex ''z'' = Some (ArrayColumn [5, 5, 5])"
  "getProperty exVertex ''nx'' = Some (ArrayColumn [0, 0, 0])"
  "getProperty exVertex ''ny'' = Some (ArrayColumn [0, 0, 0])"
  "getProperty exVertex ''nz'' = Some (ArrayColumn [1, 1, 1])"
  "getProperty exVertex ''red'' = Some (ArrayColumn [255, 10, 20])"
  "getProperty exVertex ''green'' = None"
  "getProperty exVertex ''blue'' = None"
  "getProperty exVertex ''atomid'' = Some (ArrayColumn [7, 2, 7])"
  "rowCount exVertex = 3"
  by (simp_all add: exVertex_def getProperty_def)

lemma exVertex_vertexLoop:
  "vertexLoop (ArrayColumn [0, 1, 0]) (ArrayColumn [0, 0, 1]) (ArrayColumn [5, 5, 5])
     (Some (ArrayColumn [0, 0, 0], ArrayColumn [0, 0, 0], ArrayColumn [1, 1, 1]))
     [a, b, c] 3 0 [] emptyState =
   Inr (\<lparr>vertices = [Some 0, Some 0, Some 5, Some 1, Some 0, Some 5, Some 0, Some 1, Some 5],
         normals = [Some 0, Some 0, Some 1, Some 0, Some 0, Some 1, Some 0, Some 0, Some 1],
         indices = [],
         groups = [Some (int a), Some (int b), Some (int c)]\<rparr>, [])"
  by (simp add: vertexLoop.simps checkpoint_def addVertex_def add3_def add_def arrayGet_def
      emptyState_def)

lemma vertexLoop_cancelled_at_once:
  "vertexLoop x y z hasNormals groupIds 3 0 [CancelObserved] st = Inl Cancelled"
  by (simp add: vertexLoop.simps checkpoint_def)

lemma exFace_faceLoop:
  "faceLoop exFace 0 [] st =
   Inr (st\<lparr>indices := indices st @ [Some 0, Some 1, Some 2]\<rparr>, [])"
  by (simp add: faceLoop.simps checkpoint_def addFace_def add3_def arrayGet_def exFace_def)

lemma exFace_faceLoop_cancelled: "faceLoop exFace 0 [CancelObserved] st = Inl Cancelled"
  by (simp add: faceLoop.simps checkpoint_def exFace_def)

lemma exVertex_getMesh:
  "getMesh [] exVertex exFace [a, b, c] previous h = (Inr (h + 4, exMesh [a, b, c]), h + 5)"
  by (simp add: getMesh_def createState_def exVertex_props normalColumns_def
      exVertex_vertexLoop [unfolded emptyState_def] exFace_faceLoop new_def builderGetMesh_def
      computeNormals_def exMesh_def)

lemma exVertex_getMesh_cancelled:
  "getMesh [CancelObserved] exVertex exFace groupIds previous h = (Inl Cancelled, h + 4)"
  by (simp add: getMesh_def createState_def exVertex_props vertexLoop_cancelled_at_once)

text \<open>
  C6 as stated fails: on a vertex table without \<open>x\<close> the build fails with the
  missing-property error, but the heap has grown by the four buffers of the build state,
  which \<open>createState\<close> makes before the properties are looked up.
\<close>

theorem getMesh_missing_coordinate_counterexample:
  "getProperty exVertexNoX ''x'' = None \<and>
   getMesh [] exVertexNoX exFace [0] None 0 \<noteq> (Inl MissingCoordinateProperties, 0) \<and>
   getMesh [] exVertexNoX exFace [0] None 0 = (Inl MissingCoordinateProperties, 4)"
  by (simp add: getMesh_def createState_def exVertexNoX_def getProperty_def)

text \<open>
  C6, amended: if any of \<open>x\<close>, \<open>y\<close>, \<open>z\<close> is absent from the vertex table, the mesh build
  fails with the missing-property error whatever the execution context answers, so before
  any row is read and before any checkpoint; the build state with its four buffers has
  been created by then.
\<close>

theorem getMesh_missing_coordinate:
  assumes "getProperty vertex ''x'' = None \<or> getProperty vertex ''y'' = None \<or>
           getProperty vertex ''z'' = None"
  shows "getMesh ctx vertex face groupIds previous h = (Inl MissingCoordinateProperties, h + 4) \<and>
         snd (createState (rowCount vertex) (real (rowCount vertex) / 4) previous h) = h + 4"
  using assms
  by (auto simp: getMesh_def createState_def split: option.splits)

theorem getMesh_missing_coordinate_witness:
  "getProperty exVertexNoX ''x'' = None \<and>
   getMesh [CancelObserved] exVertexNoX exFace [0] None 0 = (Inl MissingCoordinateProperties, 4)"
  using getMesh_missing_coordinate [of exVertexNoX "[CancelObserved]" exFace "[0]" None 0]
  by (simp add: exVertexNoX_def getProperty_def)

text \<open>
  C7: the face loop appends, in row order, exactly the three entries of each row whose
  count is 3 and nothing for any other row; the only error it can return is the
  cancellation observed at a checkpoint, and with no cancellation it returns whatever the
  arities are. The finished mesh therefore holds one triangle per row of count 3: one
  triangle row and one quadrilateral row give three indices.
\<close>

theorem faceLoop_triangles_only:
  "(faceLoop face 0 ctx st = Inr (st', ctx') \<longrightarrow>
      indices st' = indices st @
        concat (map (\<lambda>row. [arrayGet (entries row) 0, arrayGet (entries row) 1,
                                  arrayGet (entries row) 2])
                  (filter (\<lambda>row. count row = 3) face))) \<and>
   (faceLoop face 0 ctx st = Inl e \<longrightarrow> e = Cancelled) \<and>
   (CancelObserved \<notin> set ctx \<longrightarrow> (\<exists>r. faceLoop face 0 ctx st = Inr r)) \<and>
   (getMesh ctx vertex face groupIds previous h = (Inr (a, m), h') \<longrightarrow>
      indexBuffer m =
        concat (map (\<lambda>row. [arrayGet (entries row) 0, arrayGet (entries row) 1,
                                  arrayGet (entries row) 2])
                  (filter (\<lambda>row. count row = 3) face)) \<and>
      triangleCount m = length (filter (\<lambda>row. count row = 3) face))"
proof (intro conjI impI)
  assume "faceLoop face 0 ctx st = Inr (st', ctx')"
  from faceLoop_result [OF this]
  show "indices st' = indices st @
        concat (map (\<lambda>row. [arrayGet (entries row) 0, arrayGet (entries row) 1,
                                  arrayGet (entries row) 2])
                  (filter (\<lambda>row. count row = 3) face))" by simp
next
  assume "faceLoop face 0 ctx st = Inl e"
  then show "e = Cancelled" by (rule faceLoop_error)
next
  assume "CancelObserved \<notin> set ctx"
  from faceLoop_no_cancel [OF this, of face 0 st]
  show "\<exists>r. faceLoop face 0 ctx st = Inr r" by blast
next
  assume gm: "getMesh ctx vertex face groupIds previous h = (Inr (a, m), h')"
  let ?hn = "normalColumns (getProperty vertex ''nx'') (getProperty vertex ''ny'')
        (getProperty vertex ''nz'')"
  from gm obtain x y z st1 ctx1 st2 ctx2 where
    vl: "vertexLoop x y z ?hn groupIds (rowCount vertex) 0 ctx
        \<lparr>vertices = [], normals = [], indices = [], groups = []\<rparr> = Inr (st1, ctx1)"
    and fl: "faceLoop face 0 ctx1 st1 = Inr (st2, ctx2)"
    and m: "(a, m) =
      (h + 4, computeNormals ((builderGetMesh st2)\<lparr>normalsComputed := (?hn \<noteq> None)\<rparr>))"
    by (rule getMesh_Inr)
  from vertexLoop_result [OF vl] faceLoop_result [OF fl]
  have ix: "indices st2 =
        concat (map (\<lambda>row. [arrayGet (entries row) 0, arrayGet (entries row) 1,
                                  arrayGet (entries row) 2])
                  (filter (\<lambda>row. count row = 3) face))" by simp
  from m have "indexBuffer m = indices st2" "triangleCount m = length (indices st2) div 3"
    by (simp_all add: computeNormals_def builderGetMesh_def)
  then show "indexBuffer m =
        concat (map (\<lambda>row. [arrayGet (entries row) 0, arrayGet (entries row) 1,
                                  arrayGet (entries row) 2])
                  (filter (\<lambda>row. count row = 3) face))"
    and "triangleCount m = length (filter (\<lambda>row. count row = 3) face)"
    by (simp_all add: ix length_concat_triples)
qed

theorem faceLoop_triangles_only_witness:
  "faceLoop exFace 0 [] emptyState =
     Inr (emptyState\<lparr>indices := indices emptyState @ [Some 0, Some 1, Some 2]\<rparr>, []) \<and>
   indices emptyState @ [Some 0, Some 1, Some 2] =
     indices emptyState @
       concat (map (\<lambda>row. [arrayGet (entries row) 0, arrayGet (entries row) 1,
                            arrayGet (entries row) 2])
                 (filter (\<lambda>row. count row = 3) exFace)) \<and>
   faceLoop exFace 0 [CancelObserved] emptyState = Inl Cancelled \<and>
   CancelObserved \<notin> set [] \<and>
   getMesh [] exVertex exFace [7, 2, 7] None 0 = (Inr (4, exMesh [7, 2, 7]), 5) \<and>
   indexBuffer (exMesh [7, 2, 7]) = [Some 0, Some 1, Some 2] \<and>
   triangleCount (exMesh [7, 2, 7]) = 1 \<and>
   length (filter (\<lambda>row. count row = 3) exFace) = 1"
  using faceLoop_triangles_only [of exFace "[]" emptyState
      "emptyState\<lparr>indices := indices emptyState @ [Some 0, Some 1, Some 2]\<rparr>" "[]" Cancelled
      exVertex "[7, 2, 7]" None 0 4 "exMesh [7, 2, 7]" 5]
    faceLoop_triangles_only [of exFace "[CancelObserved]" emptyState emptyState "[]" Cancelled
      exVertex "[7, 2, 7]" None 0 4 "exMesh [7, 2, 7]" 5]
    exFace_faceLoop [of emptyState] exFace_faceLoop_cancelled [of emptyState]
    exVertex_getMesh [of 7 2 7 None 0]
  by (simp add: exMesh_def exFace_def)

text \<open>
  C10: with \<open>x\<close>, \<open>y\<close>, \<open>z\<close> present and no cancellation to observe, \<open>getMesh\<close> returns a
  mesh. Whenever it returns a mesh, the mesh has one vertex per vertex row, in input
  order: the vertex buffer is the rows' \<open>(x(i), y(i), z(i))\<close> one after the other, the group
  buffer is \<open>groupIds[i]\<close> row after row and, when \<open>nx\<close>, \<open>ny\<close>, \<open>nz\<close> are all present, the
  normal buffer is the rows' \<open>(nx(i), ny(i), nz(i))\<close>; when one of them is absent no
  supplied normal is used. So for every row \<open>i\<close> below the row count vertex \<open>i\<close> of the mesh
  is row \<open>i\<close> of the table.
\<close>

theorem getMesh_vertex_order:
  "(getProperty vertex ''x'' = Some x \<and> getProperty vertex ''y'' = Some y \<and>
    getProperty vertex ''z'' = Some z \<and> CancelObserved \<notin> set ctx \<longrightarrow>
      (\<exists>m. getMesh ctx vertex face groupIds previous h = (Inr (h + 4, m), h + 5))) \<and>
   (getMesh ctx vertex face groupIds previous h = (Inr (a, m), h') \<longrightarrow>
      vertexCount m = rowCount vertex \<and> length (groupBuffer m) = rowCount vertex \<and>
      (\<exists>x y z. getProperty vertex ''x'' = Some x \<and> getProperty vertex ''y'' = Some y \<and>
         getProperty vertex ''z'' = Some z \<and>
         vertexBuffer m =
           concat (map (\<lambda>i. [columnValue x i, columnValue y i, columnValue z i])
                     [0..<rowCount vertex]) \<and>
         (\<forall>i<rowCount vertex.
            vertexBuffer m ! (3 * i) = columnValue x i \<and>
            vertexBuffer m ! (3 * i + 1) = columnValue y i \<and>
            vertexBuffer m ! (3 * i + 2) = columnValue z i)) \<and>
      groupBuffer m = map (\<lambda>i. map_option int (arrayGet groupIds i)) [0..<rowCount vertex] \<and>
      (\<forall>i<rowCount vertex.
         groupBuffer m ! i = map_option int (arrayGet groupIds i) \<and>
         (i < length groupIds \<longrightarrow> groupBuffer m ! i = Some (int (groupIds ! i)))) \<and>
      (\<forall>nx ny nz.
         getProperty vertex ''nx'' = Some nx \<and> getProperty vertex ''ny'' = Some ny \<and>
         getProperty vertex ''nz'' = Some nz \<longrightarrow>
         normalBuffer m =
           AppendedNormals
             (concat (map (\<lambda>i. [columnValue nx i, columnValue ny i, columnValue nz i])
                        [0..<rowCount vertex])) \<and>
         (\<forall>i<rowCount vertex.
            \<exists>ns. normalBuffer m = AppendedNormals ns \<and> length ns = 3 * rowCount vertex \<and>
              ns ! (3 * i) = columnValue nx i \<and>
              ns ! (3 * i + 1) = columnValue ny i \<and>
              ns ! (3 * i + 2) = columnValue nz i)) \<and>
      (getProperty vertex ''nx'' = None \<or> getProperty vertex ''ny'' = None \<or>
       getProperty vertex ''nz'' = None \<longrightarrow> normalBuffer m = ComputedNormals))"
proof (intro conjI impI)
  assume "getProperty vertex ''x'' = Some x \<and> getProperty vertex ''y'' = Some y \<and>
    getProperty vertex ''z'' = Some z \<and> CancelObserved \<notin> set ctx"
  then show "\<exists>m. getMesh ctx vertex face groupIds previous h = (Inr (h + 4, m), h + 5)"
    using getMesh_returns by blast
next
  assume gm: "getMesh ctx vertex face groupIds previous h = (Inr (a, m), h')"
  let ?hn = "normalColumns (getProperty vertex ''nx'') (getProperty vertex ''ny'')
        (getProperty vertex ''nz'')"
  from gm obtain x y z st1 ctx1 st2 ctx2 where
    x: "getProperty vertex ''x'' = Some x" and y: "getProperty vertex ''y'' = Some y"
    and z: "getProperty vertex ''z'' = Some z"
    and vl: "vertexLoop x y z ?hn groupIds (rowCount vertex) 0 ctx
        \<lparr>vertices = [], normals = [], indices = [], groups = []\<rparr> = Inr (st1, ctx1)"
    and fl: "faceLoop face 0 ctx1 st1 = Inr (st2, ctx2)"
    and m: "(a, m) =
      (h + 4, computeNormals ((builderGetMesh st2)\<lparr>normalsComputed := (?hn \<noteq> None)\<rparr>))"
    by (rule getMesh_Inr)
  from vertexLoop_result [OF vl] faceLoop_result [OF fl]
  have v: "vertices st2 =
      concat (map (\<lambda>k. [columnValue x k, columnValue y k, columnValue z k])
        [0..<rowCount vertex])"
    and n: "normals st2 = (case ?hn of None \<Rightarrow> []
              | Some (nx, ny, nz) \<Rightarrow>
                  concat (map (\<lambda>k. [columnValue nx k, columnValue ny k, columnValue nz k])
                    [0..<rowCount vertex]))"
    and g: "groups st2 = map (\<lambda>k. map_option int (arrayGet groupIds k)) [0..<rowCount vertex]"
    by simp_all
  from m have vb: "vertexBuffer m = vertices st2" and gb: "groupBuffer m = groups st2"
    and vc: "vertexCount m = length (vertices st2) div 3"
    by (simp_all add: computeNormals_def builderGetMesh_def)
  show "vertexCount m = rowCount vertex"
    by (simp add: vc v length_concat_triples)
  show "length (groupBuffer m) = rowCount vertex"
    by (simp add: gb g)
  have c3: "vertexBuffer m ! (3 * i) = columnValue x i \<and>
            vertexBuffer m ! (3 * i + 1) = columnValue y i \<and>
            vertexBuffer m ! (3 * i + 2) = columnValue z i" if "i < rowCount vertex" for i
    unfolding vb v by (rule concat_triples_nth [OF that])
  from x y z vb v c3
  show "\<exists>x y z. getProperty vertex ''x'' = Some x \<and> getProperty vertex ''y'' = Some y \<and>
         getProperty vertex ''z'' = Some z \<and>
         vertexBuffer m =
           concat (map (\<lambda>i. [columnValue x i, columnValue y i, columnValue z i])
                     [0..<rowCount vertex]) \<and>
         (\<forall>i<rowCount vertex.
            vertexBuffer m ! (3 * i) = columnValue x i \<and>
            vertexBuffer m ! (3 * i + 1) = columnValue y i \<and>
            vertexBuffer m ! (3 * i + 2) = columnValue z i)"
    by (intro exI [of _ x] exI [of _ y] exI [of _ z]) simp
  show gbs: "groupBuffer m =
      map (\<lambda>i. map_option int (arrayGet groupIds i)) [0..<rowCount vertex]"
    by (simp add: gb g)
  show "\<forall>i<rowCount vertex.
         groupBuffer m ! i = map_option int (arrayGet groupIds i) \<and>
         (i < length groupIds \<longrightarrow> groupBuffer m ! i = Some (int (groupIds ! i)))"
    by (simp add: gbs arrayGet_def)
  show "\<forall>nx ny nz.
         getProperty vertex ''nx'' = Some nx \<and> getProperty vertex ''ny'' = Some ny \<and>
         getProperty vertex ''nz'' = Some nz \<longrightarrow>
         normalBuffer m =
           AppendedNormals
             (concat (map (\<lambda>i. [columnValue nx i, columnValue ny i, columnValue nz i])
                        [0..<rowCount vertex])) \<and>
         (\<forall>i<rowCount vertex.
            \<exists>ns. normalBuffer m = AppendedNormals ns \<and> length ns = 3 * rowCount vertex \<and>
              ns ! (3 * i) = columnValue nx i \<and>
              ns ! (3 * i + 1) = columnValue ny i \<and>
              ns ! (3 * i + 2) = columnValue nz i)"
  proof (intro allI impI)
    fix nx ny nz
    assume all: "getProperty vertex ''nx'' = Some nx \<and> getProperty vertex ''ny'' = Some ny \<and>
         getProperty vertex ''nz'' = Some nz"
    then have hn: "?hn = Some (nx, ny, nz)" by (simp add: normalColumns_def)
    with m have nb: "normalBuffer m = AppendedNormals (normals st2)"
      by (simp add: computeNormals_def builderGetMesh_def)
    from n hn have ns: "normals st2 =
        concat (map (\<lambda>k. [columnValue nx k, columnValue ny k, columnValue nz k])
                    [0..<rowCount vertex])" by simp
    have each: "\<exists>ns. normalBuffer m = AppendedNormals ns \<and> length ns = 3 * rowCount vertex \<and>
              ns ! (3 * i) = columnValue nx i \<and>
              ns ! (3 * i + 1) = columnValue ny i \<and>
              ns ! (3 * i + 2) = columnValue nz i" if i: "i < rowCount vertex" for i
      using nb concat_triples_nth [OF i, of "columnValue nx" "columnValue ny" "columnValue nz"]
      by (simp add: ns length_concat_triples)
    from nb ns each
    show "normalBuffer m =
           AppendedNormals
             (concat (map (\<lambda>i. [columnValue nx i, columnValue ny i, columnValue nz i])
                        [0..<rowCount vertex])) \<and>
         (\<forall>i<rowCount vertex.
            \<exists>ns. normalBuffer m = AppendedNormals ns \<and> length ns = 3 * rowCount vertex \<and>
              ns ! (3 * i) = columnValue nx i \<and>
              ns ! (3 * i + 1) = columnValue ny i \<and>
              ns ! (3 * i + 2) = columnValue nz i)"
      by simp
  qed
  show "normalBuffer m = ComputedNormals"
    if "getProperty vertex ''nx'' = None \<or> getProperty vertex ''ny'' = None \<or>
       getProperty vertex ''nz'' = None"
  proof -
    from that have "?hn = None" by (auto simp: normalColumns_def split: option.splits)
    with m show ?thesis by (simp add: computeNormals_def builderGetMesh_def)
  qed
qed

lemma exVertexNoNormals_getMesh:
  "getMesh [] \<lparr>rowCount = 0, properties = [(''x'', ArrayColumn []), (''y'', ArrayColumn []),
       (''z'', ArrayColumn [])]\<rparr> [] [] None 0 =
     (Inr (4, \<lparr>vertexCount = 0, triangleCount = 0, vertexBuffer = [],
               normalBuffer = ComputedNormals, indexBuffer = [], groupBuffer = [],
               normalsComputed = True\<rparr>), 5)"
  by (simp add: getMesh_def createState_def getProperty_def normalColumns_def
      vertexLoop.simps faceLoop.simps new_def builderGetMesh_def computeNormals_def)

theorem getMesh_vertex_order_witness:
  "getProperty exVertex ''x'' = Some (ArrayColumn [0, 1, 0]) \<and>
   getProperty exVertex ''y'' = Some (ArrayColumn [0, 0, 1]) \<and>
   getProperty exVertex ''z'' = Some (ArrayColumn [5, 5, 5]) \<and>
   CancelObserved \<notin> set [] \<and>
   getMesh [] exVertex exFace [7, 2, 7] None 0 = (Inr (4, exMesh [7, 2, 7]), 5) \<and>
   (1 :: nat) < rowCount exVertex \<and>
   vertexCount (exMesh [7, 2, 7]) = 3 \<and>
   vertexBuffer (exMesh [7, 2, 7]) ! 3 = Some 1 \<and>
   vertexBuffer (exMesh [7, 2, 7]) ! 4 = Some 0 \<and>
   vertexBuffer (exMesh [7, 2, 7]) ! 5 = Some 5 \<and>
   groupBuffer (exMesh [7, 2, 7]) ! 1 = Some 2 \<and>
   normalBuffer (exMesh [7, 2, 7]) =
     AppendedNormals [Some 0, Some 0, Some 1, Some 0, Some 0, Some 1, Some 0, Some 0, Some 1] \<and>
   getProperty \<lparr>rowCount = 0, properties = [(''x'', ArrayColumn []), (''y'', ArrayColumn []),
       (''z'', ArrayColumn [])]\<rparr> ''nx'' = None \<and>
   fst (getMesh [] \<lparr>rowCount = 0, properties = [(''x'', ArrayColumn []), (''y'', ArrayColumn []),
       (''z'', ArrayColumn [])]\<rparr> [] [] None 0) =
     Inr (4, \<lparr>vertexCount = 0, triangleCount = 0, vertexBuffer = [],
               normalBuffer = ComputedNormals, indexBuffer = [], groupBuffer = [],
               normalsComputed = True\<rparr>)"
proof -
  note t = getMesh_vertex_order [where vertex = exVertex and ctx = "[]" and face = exFace
      and groupIds = "[7, 2, 7]" and previous = None and h = 0 and a = 4
      and m = "exMesh [7, 2, 7]" and h' = 5 and x = "ArrayColumn [0, 1, 0]"
      and y = "ArrayColumn [0, 0, 1]" and z = "ArrayColumn [5, 5, 5]"]
  have pre: "getProperty exVertex ''x'' = Some (ArrayColumn [0, 1, 0]) \<and>
    getProperty exVertex ''y'' = Some (ArrayColumn [0, 0, 1]) \<and>
    getProperty exVertex ''z'' = Some (ArrayColumn [5, 5, 5]) \<and> CancelObserved \<notin> set []"
    by (simp add: exVertex_props)
  from t [THEN conjunct1, THEN mp, OF pre]
  have ret: "\<exists>m. getMesh [] exVertex exFace [7, 2, 7] None 0 = (Inr (0 + 4, m), 0 + 5)" .
  from t [THEN conjunct2, THEN mp, OF exVertex_getMesh [of 7 2 7 None 0, simplified]]
  have vc: "vertexCount (exMesh [7, 2, 7]) = rowCount exVertex" by blast
  note t0 = getMesh_vertex_order [where vertex = "\<lparr>rowCount = 0, properties =
        [(''x'', ArrayColumn []), (''y'', ArrayColumn []), (''z'', ArrayColumn [])]\<rparr>"
      and ctx = "[]" and face = "[]" and groupIds = "[]" and previous = None and h = 0
      and a = 4 and h' = 5, THEN conjunct2, THEN mp,
      OF exVertexNoNormals_getMesh]
  from t0 have cn: "getProperty \<lparr>rowCount = 0, properties =
        [(''x'', ArrayColumn []), (''y'', ArrayColumn []), (''z'', ArrayColumn [])]\<rparr> ''nx'' = None
      \<longrightarrow> normalBuffer \<lparr>vertexCount = 0, triangleCount = 0, vertexBuffer = [],
               normalBuffer = ComputedNormals, indexBuffer = [], groupBuffer = [],
               normalsComputed = True\<rparr> = ComputedNormals"
    by blast
  have nx0: "getProperty \<lparr>rowCount = 0, properties =
        [(''x'', ArrayColumn []), (''y'', ArrayColumn []), (''z'', ArrayColumn [])]\<rparr> ''nx'' = None"
    by (simp add: getProperty_def)
  from ret vc cn nx0 exVertex_getMesh [of 7 2 7 None 0] exVertexNoNormals_getMesh
  show ?thesis
    by (simp add: exVertex_props exMesh_def)
qed

section \<open>Properties of the shape getter\<close>

text \<open>A call that returns leaves the cache keyed by its file and parameters.\<close>

lemma getShape_success:
  assumes "getShape ctx plyFile props previous (st, h) = (Inr r, st', h')"
  shows "c_plyFile st' = Some plyFile \<and> c_props st' = Some props \<and> c_shape st' = r \<and>
         (\<exists>vertex. vertexElement plyFile = Some vertex) \<and>
         (\<exists>face. faceElement plyFile = Some face)"
  using assms
  by (auto simp: getShape_def new_def split: option.splits if_splits sum.splits prod.splits)

lemma getShape_success_consistent:
  assumes "getShape ctx plyFile props previous (st, h) = (Inr r, st', h')"
    and "cacheConsistent st"
  shows "cacheConsistent st'"
  using assms
  by (auto simp: getShape_def new_def cacheConsistent_def createShape_def
      split: option.splits if_splits sum.splits prod.splits)

lemma cacheConsistent_initial: "cacheConsistent makeShapeGetter"
  by (simp add: cacheConsistent_def makeShapeGetter_def)

text \<open>
  A call that fails leaves the cached file, parameters, shape and mesh as they were; the
  cached coloring and grouping are not in this list.
\<close>

theorem getShape_failure_frame:
  assumes "getShape ctx plyFile props previous (st, h) = (Inl e, st', h')"
  shows "c_plyFile st' = c_plyFile st \<and> c_props st' = c_props st \<and>
         c_shape st' = c_shape st \<and> c_mesh st' = c_mesh st"
  using assms
  by (auto simp: getShape_def new_def split: option.splits if_splits sum.splits prod.splits)

text \<open>The calls on the example files.\<close>

lemma grouping_ids: "ids serialGrouping = [0, 1, 2]" "ids atomidGrouping = [7, 2, 7]"
  by (simp_all add: serialGrouping_def atomidGrouping_def)

lemma getGrouping_examples:
  "getGrouping exVertex propsAtomid = Inr atomidGrouping"
  "getGrouping exVertex propsNone = Inr serialGrouping"
  by (simp_all add: getGrouping_atomid getGrouping_none atomidGrouping_def serialGrouping_def)

lemma getColoring_examples:
  "getColoring exVertex propsNone = uniformColoring"
  "getColoring exVertex propsAtomid = uniformColoring"
  "getColoring exVertex propsRecolored = vertexColoring"
  by (simp_all add: getColoring_def propsNone_def propsAtomid_def propsRecolored_def
      uniformColoring_def vertexColoring_def exVertex_props orElse_def)

lemma exFile_elements:
  "vertexElement exFile = Some exVertex" "faceElement exFile = Some exFace" "fileId exFile = 1"
  by (simp_all add: exFile_def)

lemma exCache_fields:
  "c_plyFile exCache = Some exFile" "c_props exCache = Some propsNone"
  "c_shape exCache = Some (7, exShape)" "c_mesh exCache = Some (6, exMesh [0, 1, 2])"
  "c_coloring exCache = Some (0, uniformColoring)" "c_grouping exCache = Some (1, serialGrouping)"
  by (simp_all add: exCache_def)

lemma props_fields:
  "grouping propsNone = GroupingNone" "grouping propsAtomid = GroupingVertex ''atomid''"
  "grouping propsRecolored = GroupingNone"
  "coloring propsNone = ColoringUniform (Rgb 10 20 30)"
  "coloring propsAtomid = ColoringUniform (Rgb 10 20 30)"
  "coloring propsRecolored = ColoringVertex ''red'' ''green'' ''blue''"
  by (simp_all add: propsNone_def propsAtomid_def propsRecolored_def)

lemma first_call:
  "getShape [] exFile propsNone None (makeShapeGetter, 0) = (Inr (Some (7, exShape)), exCache, 8)"
  by (simp add: getShape_def exFile_elements newMesh_def makeShapeGetter_def new_def
      getColoring_examples getGrouping_examples grouping_ids shapeGeometry_def
      exVertex_getMesh createShape_def exShape_def exCache_def)

lemma first_call_atomid:
  "fst (getShape [] exFile propsAtomid None (makeShapeGetter, 0)) = Inr (Some (7, exShapeAtomid))"
  by (simp add: getShape_def exFile_elements newMesh_def makeShapeGetter_def new_def
      getColoring_examples getGrouping_examples grouping_ids shapeGeometry_def
      exVertex_getMesh createShape_def exShapeAtomid_def)

lemma cancelled_call:
  "getShape [CancelObserved] exFile propsAtomid None (exCache, 8) =
     (Inl Cancelled, cancelledCache, 14)"
  by (simp add: getShape_def exFile_elements newMesh_def exCache_fields props_fields new_def
      getColoring_examples getGrouping_examples grouping_ids shapeGeometry_def
      exVertex_getMesh_cancelled cancelledCache_def)

lemma missing_call:
  "getShape [] exFileNoX propsNone None (exCache, 8) =
     (Inl MissingCoordinateProperties, missingCache, 14)"
  by (simp add: getShape_def exFileNoX_def exFile_elements newMesh_def exCache_fields props_fields
      new_def getColoring_def getGrouping_def exVertexNoX_def getProperty_def fillSerial_def
      newUint32Array_def arrayMax_def groupingLoop.simps shapeGeometry_def Let_def
      getMesh_def createState_def missingCache_def propsNone_def)

lemma unchanged_after_cancelled_call:
  "getShape ctx exFile propsNone None (cancelledCache, 14) =
     (Inr (Some (7, exShape)), cancelledCache, 14)"
  by (simp add: getShape_def exFile_elements newMesh_def newColor_def cancelledCache_def
      exCache_fields props_fields exCache_def)

lemma recolor_after_cancelled_call:
  "fst (getShape ctx exFile propsRecolored None (cancelledCache, 14)) =
     Inr (Some (15, staleShape))"
  by (simp add: getShape_def exFile_elements newMesh_def newColor_def cancelledCache_def
      exCache_fields props_fields exCache_def
      new_def getColoring_examples createShape_def staleShape_def)

lemma recolor_after_first_call:
  "fst (getShape ctx exFile propsRecolored None (exCache, 8)) =
     Inr (Some (9, exShape\<lparr>capturedColoring := (8, vertexColoring)\<rparr>))"
  by (simp add: getShape_def exFile_elements newMesh_def newColor_def
      exCache_fields props_fields
      new_def getColoring_examples createShape_def exShape_def)

lemma toString_digit: "toString 0 = ''0''" "toString 2 = ''2''" "toString 7 = ''7''"
  by (simp_all add: toString.simps)

lemma labels:
  "getLabel staleShape 0 = Inr ''7''" "getLabel staleShape 2 = Inr ''7''"
  "getLabel (exShape\<lparr>capturedColoring := (8, vertexColoring)\<rparr>) 0 = Inr ''0''"
  "getLabel (exShape\<lparr>capturedColoring := (8, vertexColoring)\<rparr>) 2 = Inr ''2''"
  "getLabel exShapeAtomid 7 = Inl TypeError"
  "getLabel exShapeAtomid 2 = Inr ''7''"
  by (simp_all add: getLabel_def staleShape_def exShape_def exShapeAtomid_def grouping_ids
      arrayGet_def toString_digit)

lemma colors:
  "getColor staleShape 2 = Rgb 10 127 127"
  "getColor (exShape\<lparr>capturedColoring := (8, vertexColoring)\<rparr>) 2 = Rgb 20 127 127"
  "getColor exShapeAtomid 7 = Rgb 10 20 30"
  "getColor exShapeAtomid 2 = Rgb 10 20 30"
  by (simp_all add: getColor_def staleShape_def exShape_def exShapeAtomid_def
      atomidGrouping_def serialGrouping_def vertexColoring_def uniformColoring_def
      arrayGet_def fromRgb_def ofConst_def)

theorem getShape_failure_frame_witness:
  "getShape [CancelObserved] exFile propsAtomid None (exCache, 8) =
     (Inl Cancelled, cancelledCache, 14) \<and>
   c_plyFile cancelledCache = c_plyFile exCache \<and> c_props cancelledCache = c_props exCache \<and>
   c_shape cancelledCache = c_shape exCache \<and> c_mesh cancelledCache = c_mesh exCache"
  using getShape_failure_frame [OF cancelled_call] cancelled_call
  by simp

text \<open>
  C1, evaluated where it fails. After a first call has filled the cache (\<open>exCache\<close>), a
  rebuild that is cancelled at its first checkpoint, and a rebuild on a file without
  \<open>x\<close>, both fail and both leave a cache that differs from \<open>exCache\<close>: \<open>_coloring\<close> and
  \<open>_grouping\<close> hold the objects made for the failed call, while the shape, mesh, file and
  parameters are the old ones. A later color-only request then builds its shape from the
  old mesh and the failed call's grouping (\<open>staleShape\<close>): group 2 is labelled 7 and
  takes the color of row 1, where the same request on \<open>exCache\<close> labels it 2 and gives it
  the color of row 2.
\<close>

theorem getShape_failure_changes_cache:
  "getShape [] exFile propsNone None (makeShapeGetter, 0) = (Inr (Some (7, exShape)), exCache, 8) \<and>
   getShape [CancelObserved] exFile propsAtomid None (exCache, 8) =
     (Inl Cancelled, cancelledCache, 14) \<and>
   getShape [] exFileNoX propsNone None (exCache, 8) =
     (Inl MissingCoordinateProperties, missingCache, 14) \<and>
   cancelledCache \<noteq> exCache \<and> missingCache \<noteq> exCache \<and>
   c_grouping exCache = Some (1, serialGrouping) \<and>
   c_coloring exCache = Some (0, uniformColoring) \<and>
   c_grouping cancelledCache = Some (9, atomidGrouping) \<and>
   c_coloring cancelledCache = Some (8, uniformColoring) \<and>
   c_grouping missingCache = Some (9, \<lparr>ids = [0], map' = [0]\<rparr>) \<and>
   c_shape cancelledCache = c_shape exCache \<and> c_mesh cancelledCache = c_mesh exCache \<and>
   c_plyFile cancelledCache = c_plyFile exCache \<and> c_props cancelledCache = c_props exCache \<and>
   fst (getShape [] exFile propsRecolored None (cancelledCache, 14)) =
     Inr (Some (15, staleShape)) \<and>
   fst (getShape [] exFile propsRecolored None (exCache, 8)) =
     Inr (Some (9, exShape\<lparr>capturedColoring := (8, vertexColoring)\<rparr>)) \<and>
   getLabel staleShape 2 = Inr ''7'' \<and>
   getLabel (exShape\<lparr>capturedColoring := (8, vertexColoring)\<rparr>) 2 = Inr ''2'' \<and>
   getColor staleShape 2 = Rgb 10 127 127 \<and>
   getColor (exShape\<lparr>capturedColoring := (8, vertexColoring)\<rparr>) 2 = Rgb 20 127 127"
  by (simp add: first_call cancelled_call missing_call recolor_after_cancelled_call
      recolor_after_first_call labels colors)
    (simp add: cancelledCache_def missingCache_def exCache_def)

text \<open>
  C2, evaluated where it fails. Grouping the example by \<open>atomid\<close> gives a mesh whose group
  buffer is 7, 2, 7. The label callback reads \<open>ids[groupId]\<close>, and \<open>ids\<close> has one entry
  per row: for group 7 the entry is \<open>undefined\<close> and \<open>toString\<close> on it is a TypeError; for
  group 2 the label is the identifier of row 2, which is 7. The color and size callbacks
  answer for both.
\<close>

theorem getLabel_fails_on_group_id:
  "fst (getShape [] exFile propsAtomid None (makeShapeGetter, 0)) =
     Inr (Some (7, exShapeAtomid)) \<and>
   geometry exShapeAtomid = Some (6, exMesh [7, 2, 7]) \<and>
   groupBuffer (exMesh [7, 2, 7]) = [Some 7, Some 2, Some 7] \<and>
   getLabel exShapeAtomid 7 = Inl TypeError \<and>
   getLabel exShapeAtomid 2 = Inr ''7'' \<and>
   getColor exShapeAtomid 7 = Rgb 10 20 30 \<and>
   getColor exShapeAtomid 2 = Rgb 10 20 30 \<and>
   getSize exShapeAtomid 7 = 1"
  by (simp add: first_call_atomid labels colors getSize_def)
    (simp add: exShapeAtomid_def exMesh_def)

text \<open>
  C3: after a call that returned, a second call with the same file and the same
  parameters returns the very same result (the same reference), whatever its execution
  context and previous-shape argument are, and leaves the cache and the heap as they
  were: nothing is created, so neither grouping, coloring nor mesh is recomputed.
\<close>

theorem getShape_unchanged:
  assumes "getShape ctx plyFile props previous (st, h) = (Inr r, st', h')"
  shows "getShape ctx' plyFile props previous' (st', h') = (Inr r, st', h')"
proof -
  from getShape_success [OF assms] obtain vertex face where
    f: "c_plyFile st' = Some plyFile" and p: "c_props st' = Some props"
    and s: "c_shape st' = r" and v: "vertexElement plyFile = Some vertex"
    and fa: "faceElement plyFile = Some face" by blast
  have nm: "\<not> newMesh st' plyFile props" by (simp add: newMesh_def f p)
  have nc: "\<not> newColor st' props" by (simp add: newColor_def p)
  have same: "st'\<lparr>c_plyFile := Some plyFile, c_props := Some props\<rparr> = st'"
    using f p by (cases st') simp
  show ?thesis
    by (simp add: getShape_def v fa nm nc s same)
qed

theorem getShape_unchanged_witness:
  "getShape [] exFile propsNone None (makeShapeGetter, 0) = (Inr (Some (7, exShape)), exCache, 8) \<and>
   getShape [CancelObserved] exFile propsNone (Some (7, exShape)) (exCache, 8) =
     (Inr (Some (7, exShape)), exCache, 8)"
  using getShape_unchanged [OF first_call, of "[CancelObserved]" "Some (7, exShape)"] first_call
  by simp

text \<open>
  C4, evaluated where it fails. A first call fills the cache (\<open>exCache\<close>, shape \<open>exShape\<close>);
  a rebuild with another grouping is cancelled and leaves its grouping in the cache
  (\<open>cancelledCache\<close>, as in C1); the first request again takes the Unchanged path and
  returns \<open>exShape\<close>; the same request with other coloring parameters then takes the
  color-only path. The shape it returns has the mesh of the previous result, but not its
  grouping: it is built from the cancelled call's grouping.
\<close>

theorem getShape_color_only_after_failed_rebuild:
  "getShape [] exFile propsNone None (makeShapeGetter, 0) = (Inr (Some (7, exShape)), exCache, 8) \<and>
   getShape [CancelObserved] exFile propsAtomid None (exCache, 8) =
     (Inl Cancelled, cancelledCache, 14) \<and>
   getShape [] exFile propsNone None (cancelledCache, 14) =
     (Inr (Some (7, exShape)), cancelledCache, 14) \<and>
   grouping propsRecolored = grouping propsNone \<and>
   coloring propsRecolored \<noteq> coloring propsNone \<and>
   fst (getShape [] exFile propsRecolored None (cancelledCache, 14)) =
     Inr (Some (15, staleShape)) \<and>
   geometry staleShape = geometry exShape \<and>
   capturedGrouping exShape = (1, serialGrouping) \<and>
   capturedGrouping staleShape = (9, atomidGrouping) \<and>
   capturedGrouping staleShape \<noteq> capturedGrouping exShape"
  by (simp add: first_call cancelled_call unchanged_after_cancelled_call
      recolor_after_cancelled_call props_fields)
    (simp add: staleShape_def exShape_def)

text \<open>
  The color-only path on a consistent cache: after a call that returned a shape to a
  getter whose cache was consistent, a second call with the same file, the same grouping
  parameters and different coloring parameters returns a new shape with the same mesh and
  the same grouping (the same references) and the coloring of the new parameters. It does
  so whatever its execution context is, and creates two objects only, the coloring and
  the shape: the mesh builder is not run. The cached mesh and grouping stay.
\<close>

theorem getShape_color_only:
  assumes first: "getShape ctx plyFile props previous (st, h) = (Inr (Some (a1, s1)), st', h')"
    and consistent: "cacheConsistent st"
    and same_grouping: "grouping props' = grouping props"
    and other_coloring: "coloring props' \<noteq> coloring props"
  shows "\<exists>vertex s2 st2.
           vertexElement plyFile = Some vertex \<and>
           getShape ctx' plyFile props' previous' (st', h') =
             (Inr (Some (Suc h', s2)), st2, h' + 2) \<and>
           geometry s2 = geometry s1 \<and>
           capturedGrouping s2 = capturedGrouping s1 \<and>
           capturedColoring s2 = (h', getColoring vertex props') \<and>
           c_mesh st2 = c_mesh st' \<and> c_grouping st2 = c_grouping st' \<and>
           c_mesh st2 = geometry s2 \<and> c_grouping st2 = Some (capturedGrouping s2) \<and>
           c_coloring st2 = Some (capturedColoring s2) \<and> c_shape st2 = Some (Suc h', s2) \<and>
           c_plyFile st2 = Some plyFile \<and> c_props st2 = Some props'"
proof -
  from getShape_success [OF first] obtain vertex face where
    f: "c_plyFile st' = Some plyFile" and p: "c_props st' = Some props"
    and s: "c_shape st' = Some (a1, s1)" and v: "vertexElement plyFile = Some vertex"
    and fa: "faceElement plyFile = Some face" by blast
  from getShape_success_consistent [OF first consistent] s
  have m: "c_mesh st' = geometry s1" and g: "c_grouping st' = Some (capturedGrouping s1)"
    by (simp_all add: cacheConsistent_def)
  have nm: "\<not> newMesh st' plyFile props'" by (simp add: newMesh_def f p same_grouping)
  have nc: "newColor st' props'" using other_coloring by (simp add: newColor_def p)
  show ?thesis
    by (simp add: getShape_def v fa nm nc new_def g m createShape_def)
qed

theorem getShape_color_only_witness:
  "getShape [] exFile propsNone None (makeShapeGetter, 0) = (Inr (Some (7, exShape)), exCache, 8) \<and>
   cacheConsistent makeShapeGetter \<and>
   grouping propsRecolored = grouping propsNone \<and>
   coloring propsRecolored \<noteq> coloring propsNone \<and>
   fst (getShape [CancelObserved] exFile propsRecolored None (exCache, 8)) =
     Inr (Some (9, exShape\<lparr>capturedColoring := (8, vertexColoring)\<rparr>)) \<and>
   geometry (exShape\<lparr>capturedColoring := (8, vertexColoring)\<rparr>) = geometry exShape \<and>
   capturedGrouping (exShape\<lparr>capturedColoring := (8, vertexColoring)\<rparr>) =
     capturedGrouping exShape"
  using getShape_color_only [OF first_call cacheConsistent_initial,
      of propsRecolored "[CancelObserved]" None]
    first_call cacheConsistent_initial recolor_after_first_call [of "[CancelObserved]"]
  by (simp add: props_fields)

section \<open>Properties of the yielding strategies\<close>

lemma roundHalfEven_int: "roundHalfEven (of_int m) = m"
  by (simp add: roundHalfEven_def)

text \<open>An integer below \<open>2 ^ 53\<close> in magnitude is a double: rounding leaves it as it is.\<close>

lemma doubleRound_int:
  assumes "\<bar>n\<bar> < 2 ^ 53"
  shows "doubleRound (of_int n) = Finite (of_int n)"
proof (cases "n = 0")
  case True
  then show ?thesis by (simp add: doubleRound_def)
next
  case False
  define a :: real where "a = \<bar>of_int n\<bar>"
  from False have "1 \<le> \<bar>n\<bar>" by arith
  then have "(1 :: real) \<le> of_int \<bar>n\<bar>" by simp
  then have a1: "1 \<le> a" by (simp add: a_def)
  from assms have "(of_int \<bar>n\<bar> :: real) < 2 ^ 53" by simp
  then have a2: "a < 2 ^ 53" by (simp add: a_def)
  define k where "k = \<lfloor>log 2 a\<rfloor>"
  have k0: "0 \<le> k" unfolding k_def using a1 by simp
  have "a < 2 powr 53" using a2 by simp
  moreover have "0 < a" using a1 by simp
  ultimately have "log 2 a < 53"
  proof -
    assume lt: "a < 2 powr 53" and pos: "0 < a"
    have b: "(1 :: real) < 2" by simp
    from log_less_iff [OF b pos, of 53] lt show ?thesis by blast
  qed
  then have k52: "k \<le> 52" unfolding k_def by (simp add: floor_le_iff)
  define j where "j = nat (52 - k)"
  from k0 k52 have e: "max k (- 1022) - 52 = - int j" by (simp add: j_def)
  have p: "2 powr of_int (- int j) = 1 / (2 :: real) ^ j"
    by (simp add: powr_minus_divide powr_realpow)
  have d: "of_int n / (1 / (2 :: real) ^ j) = of_int (n * 2 ^ j)" by simp
  have q: "of_int (n * 2 ^ j) * (1 / (2 :: real) ^ j) = of_int n" by simp
  have big: "(2 :: real) ^ 53 \<le> 2 ^ 1024" by (rule power_increasing) simp_all
  have b1: "\<not> (2 :: real) ^ 1024 \<le> of_int n"
  proof -
    from assms have "n < 2 ^ 53" by simp
    then have "(of_int n :: real) < 2 ^ 53" by simp
    with big show ?thesis by linarith
  qed
  have b2: "\<not> of_int n \<le> - ((2 :: real) ^ 1024)"
  proof -
    from assms have "- (2 ^ 53) < n" by simp
    then have "(of_int (- (2 ^ 53)) :: real) < of_int n" by (simp only: of_int_less_iff)
    then have "- ((2 :: real) ^ 53) < of_int n" by simp
    with big show ?thesis by linarith
  qed
  from False have nz: "(of_int n :: real) \<noteq> 0" by simp
  show ?thesis
    unfolding doubleRound_def Let_def a_def [symmetric] k_def [symmetric] e p d
      roundHalfEven_int q
    using nz b1 b2 by simp
qed

lemma doubleRound_small:
  "doubleRound 250 = Finite 250" "doubleRound 300 = Finite 300" "doubleRound 255 = Finite 255"
  "doubleRound 245 = Finite 245" "doubleRound 100 = Finite 100" "doubleRound 251 = Finite 251"
  using doubleRound_int [of 250] doubleRound_int [of 300] doubleRound_int [of 255]
    doubleRound_int [of 245] doubleRound_int [of 100] doubleRound_int [of 251]
  by simp_all

text \<open>
  C9 as stated fails, in two ways. At a checkpoint where the computed difference is
  exactly 250, \<open>Yielding.yield\<close> suspends (it returns early only on
  \<open>t - lastUpdated < 250\<close>) while \<open>CheckYielding.needsYield\<close> is false (its test is
  \<open>now() - lastUpdated > 250\<close>). And \<open>CheckYielding.yield\<close> records a second reading of the
  clock: when that is later than the one \<open>needsYield\<close> tested (310 after 300), a later
  checkpoint (555) is beyond the budget for \<open>Yielding\<close> and within it for \<open>CheckYielding\<close>.
  All the differences taken here are integers, which the double subtraction gives exactly.
\<close>

theorem yield_strategies_counterexample:
  "maybeAwaitable doubleSub newYielder [Finite 250] = [True] \<and>
   checkThenYield doubleSub newYielder [(Finite 250, Finite 250)] = [False] \<and>
   maybeAwaitable doubleSub newYielder [Finite 300, Finite 555] = [True, True] \<and>
   checkThenYield doubleSub newYielder [(Finite 300, Finite 310), (Finite 555, Finite 555)] =
     [True, False]"
  by (simp add: newYielder_def Yielding_yield_def needsYield_def CheckYielding_yield_def
      doubleRound_small)

text \<open>
  C9, amended: started from the same recorded update, the two strategies suspend at
  exactly the same checkpoints for every sequence of checkpoints at which
  \<open>CheckYielding.yield\<close> reads the same clock value as \<open>needsYield\<close> did and at none of
  which the difference computed between the reading and the update recorded before it is
  exactly 250 (or NaN); where the computed difference is exactly 250, or NaN,
  \<open>Yielding.yield\<close> suspends and \<open>CheckYielding.needsYield\<close> is false. This holds whatever
  the subtraction computes, so for the rounding subtraction of doubles.
\<close>

theorem yield_strategies_agree_off_budget:
  "((\<forall>p \<in> set ts. snd p = fst p) \<longrightarrow> offBudget sub (lastUpdated y) (map fst ts) \<longrightarrow>
      maybeAwaitable sub y (map fst ts) = checkThenYield sub y ts) \<and>
   (sub t (lastUpdated y) = Finite 250 \<or> sub t (lastUpdated y) = NaN \<longrightarrow>
      fst (Yielding_yield sub t y) \<and> \<not> needsYield sub t y)"
proof
  have excl: "\<not> greaterThan250 d" if "lessThan250 d" for d
    using that by (cases d) simp_all
  show "(\<forall>p \<in> set ts. snd p = fst p) \<longrightarrow> offBudget sub (lastUpdated y) (map fst ts) \<longrightarrow>
      maybeAwaitable sub y (map fst ts) = checkThenYield sub y ts"
  proof (induction ts arbitrary: y)
    case Nil
    show ?case by simp
  next
    case (Cons p ts)
    obtain t t' where p: "p = (t, t')" by (cases p)
    show ?case
    proof (intro impI)
      assume same: "\<forall>q \<in> set (p # ts). snd q = fst q"
        and ob: "offBudget sub (lastUpdated y) (map fst (p # ts))"
      from same p have t': "t' = t" and rest: "\<forall>q \<in> set ts. snd q = fst q" by simp_all
      show "maybeAwaitable sub y (map fst (p # ts)) = checkThenYield sub y (p # ts)"
      proof (cases "lessThan250 (sub t (lastUpdated y))")
        case True
        with ob p have "offBudget sub (lastUpdated y) (map fst ts)" by simp
        with Cons.IH [of y] rest True excl [OF True] show ?thesis
          by (simp add: p Yielding_yield_def needsYield_def)
      next
        case False
        with ob p have gt: "greaterThan250 (sub t (lastUpdated y))" by simp
        from ob False p
        have "offBudget sub (lastUpdated (y\<lparr>lastUpdated := t\<rparr>)) (map fst ts)"
          by simp
        with Cons.IH [of "y\<lparr>lastUpdated := t\<rparr>"] rest False gt show ?thesis
          by (simp add: p t' Yielding_yield_def needsYield_def CheckYielding_yield_def)
      qed
    qed
  qed
next
  show "sub t (lastUpdated y) = Finite 250 \<or> sub t (lastUpdated y) = NaN \<longrightarrow>
      fst (Yielding_yield sub t y) \<and> \<not> needsYield sub t y"
    by (auto simp: Yielding_yield_def needsYield_def)
qed

theorem yield_strategies_agree_off_budget_witness:
  "offBudget doubleSub (lastUpdated newYielder)
     (map fst [(Finite 100, Finite 100), (Finite 300, Finite 300), (Finite 400, Finite 400),
               (Finite 551, Finite 551)]) \<and>
   maybeAwaitable doubleSub newYielder
     (map fst [(Finite 100, Finite 100), (Finite 300, Finite 300), (Finite 400, Finite 400),
               (Finite 551, Finite 551)]) = [False, True, False, True] \<and>
   checkThenYield doubleSub newYielder
     [(Finite 100, Finite 100), (Finite 300, Finite 300), (Finite 400, Finite 400),
      (Finite 551, Finite 551)] = [False, True, False, True] \<and>
   doubleSub (Finite 250) (lastUpdated newYielder) = Finite 250 \<and>
   fst (Yielding_yield doubleSub (Finite 250) newYielder) \<and>
   \<not> needsYield doubleSub (Finite 250) newYielder"
  using yield_strategies_agree_off_budget
    [of "[(Finite 100, Finite 100), (Finite 300, Finite 300), (Finite 400, Finite 400),
          (Finite 551, Finite 551)]" doubleSub newYielder "Finite 250"]
  by (simp add: newYielder_def Yielding_yield_def needsYield_def CheckYielding_yield_def
      doubleRound_small)

end
